theory Spec2Isabelle
  imports Complex_Main "HOL-Library.Stream"
begin

section \<open>Data model (app/models/document.py)\<close>

text \<open>
  \<^verbatim>\<open>class DocumentType(str, Enum)\<close>: every member is a string (its value) and compares
  equal to that string, so the members are modelled as the strings they are, and the
  field \<open>document_type\<close> of a document as a string. A document whose type is none of
  the five members is one whose \<open>document_type\<close> is any other string.
\<close>

definition BANK_STATEMENT :: string where "BANK_STATEMENT = ''bank_statement''"
definition PAYSLIP :: string where "PAYSLIP = ''payslip''"
definition IRP :: string where "IRP = ''irp''"
definition PPSN :: string where "PPSN = ''ppsn''"
definition TAX_RECORD :: string where "TAX_RECORD = ''tax_record''"

definition DocumentType_members :: "string list" where
  "DocumentType_members = [BANK_STATEMENT, PAYSLIP, IRP, PPSN, TAX_RECORD]"

text \<open>A \<^verbatim>\<open>datetime\<close> is a point in time, here microseconds since the epoch.\<close>

type_synonym datetime = int

record Document =
  file_path :: string
  document_type :: string
  customer_name :: string
  customer_id :: string
  upload_date :: datetime
  metadata :: "(string \<times> string) list"

record ValidationCheck =
  check_type :: string
  passed :: bool
  details :: string

record ValidationResult =
  document :: Document
  is_valid :: bool
  risk_score :: int
  checks :: "ValidationCheck list"
  anomalies :: "string list"
  recommendations :: "string list"
  validation_date :: datetime

text \<open>
  \<^verbatim>\<open>validation_date: datetime = datetime.now()\<close> is a class attribute: the call of
  \<^verbatim>\<open>datetime.now()\<close> is evaluated once, when the class body runs, and its value is the
  default of the field from then on. The constructor takes that value as
  \<open>class_date\<close>; no caller in the validator passes \<open>validation_date\<close>.
\<close>

definition ValidationResult_init ::
  "datetime \<Rightarrow> Document \<Rightarrow> bool \<Rightarrow> int \<Rightarrow> ValidationCheck list \<Rightarrow> string list \<Rightarrow> string list
    \<Rightarrow> ValidationResult" where
  "ValidationResult_init class_date doc valid score cs as rs =
     \<lparr>document = doc, is_valid = valid, risk_score = score, checks = cs,
      anomalies = as, recommendations = rs, validation_date = class_date\<rparr>"

section \<open>The random module\<close>

text \<open>
  The validator draws from Python's module-level generator. Its state is modelled as
  the stream of raw values that its successive calls consume, one per call; each
  function maps the raw value onto its own range, so that every result in the range
  is produced by some raw value and equally many raw values below a common multiple
  produce each.
  \<^item> \<^verbatim>\<open>random.choice(seq)\<close> returns \<open>seq[i]\<close> for an index \<open>i\<close> below \<open>len(seq)\<close>,
    and raises IndexError on an empty sequence;
  \<^item> \<^verbatim>\<open>random.random()\<close> returns a double \<open>k / 2^53\<close> with \<open>0 \<le> k < 2^53\<close>;
  \<^item> \<^verbatim>\<open>random.randint(a, b)\<close> returns an integer in \<open>[a, b]\<close>, and raises ValueError
    when the range is empty.
\<close>

datatype py_error = IndexError | ValueError

type_synonym rng = "nat stream"

type_synonym 'a rand = "rng \<Rightarrow> py_error + ('a \<times> rng)"

definition rreturn :: "'a \<Rightarrow> 'a rand" where
  "rreturn x g = Inr (x, g)"

definition rbind :: "'a rand \<Rightarrow> ('a \<Rightarrow> 'b rand) \<Rightarrow> 'b rand" where
  "rbind m f g = (case m g of Inl e \<Rightarrow> Inl e | Inr (x, g') \<Rightarrow> f x g')"

definition random_choice :: "'a list \<Rightarrow> 'a rand" where
  "random_choice seq g =
     (if seq = [] then Inl IndexError
      else Inr (seq ! (shd g mod length seq), stl g))"

definition random_random :: "rat rand" where
  "random_random g = Inr (of_nat (shd g mod 2 ^ 53) / 2 ^ 53, stl g)"

definition random_randint :: "int \<Rightarrow> int \<Rightarrow> int rand" where
  "random_randint a b g =
     (if b < a then Inl ValueError
      else Inr (a + int (shd g mod nat (b - a + 1)), stl g))"

text \<open>
  The float literals \<^verbatim>\<open>0.3\<close> and \<^verbatim>\<open>0.2\<close> are the doubles nearest to them; both
  are exact rationals with denominator \<open>2^54\<close>.
\<close>

definition float_0_3 :: rat where
  "float_0_3 = 5404319552844595 / 2 ^ 54"

definition float_0_2 :: rat where
  "float_0_2 = 3602879701896397 / 2 ^ 54"

section \<open>The validator (app/services/validator.py)\<close>

text \<open>
  The methods of \<^verbatim>\<open>DocumentValidator\<close>, without the \<open>self\<close> they never read and
  without the leading underscore of the private names. Each takes the class date (see
  above) and the document, and runs in the generator state. The draws are made in the
  order in which Python evaluates the list of checks: for each check its \<open>passed\<close>
  argument first, then the condition of its \<open>details\<close>; the adjustment of the risk
  score is drawn after the loop over the checks. \<^verbatim>\<open>all\<close> and \<^verbatim>\<open>any\<close> over the checks
  are \<open>list_all\<close> and \<open>list_ex\<close>, the two \<^verbatim>\<open>for\<close> loops are folds from the left.
\<close>

definition validate_bank_statement :: "datetime \<Rightarrow> Document \<Rightarrow> ValidationResult rand" where
  "validate_bank_statement class_date doc =
     rbind (random_choice [True, False]) (\<lambda>passed3.
     rbind random_random (\<lambda>r3.
     rbind (random_choice [True, False]) (\<lambda>passed4.
     rbind random_random (\<lambda>r4.
     let checks =
           [\<lparr>check_type = ''Template Verification'', passed = True,
             details = ''Document matches known bank statement template''\<rparr>,
            \<lparr>check_type = ''Logo Verification'', passed = True,
             details = ''Bank logo position and appearance verified''\<rparr>,
            \<lparr>check_type = ''Account Number Format'', passed = True,
             details = ''IBAN format is valid''\<rparr>,
            \<lparr>check_type = ''Balance Calculation'', passed = passed3,
             details = (if r3 > float_0_3 then ''Opening balance + transactions = closing balance''
                        else ''Discrepancy detected in balance calculation'')\<rparr>,
            \<lparr>check_type = ''Transaction Pattern Analysis'', passed = passed4,
             details = (if r4 > float_0_3 then ''Transaction patterns appear normal''
                        else ''Unusual transaction patterns detected'')\<rparr>];
         is_valid = list_all passed checks;
         risk_score = fold (\<lambda>check risk_score.
                         if \<not> passed check then risk_score + 20 else risk_score) checks 10
     in
     rbind (random_randint (- 10) 10) (\<lambda>adjustment.
     let risk_score = risk_score + adjustment;
         risk_score = max 0 (min 100 risk_score);
         anomalies = fold (\<lambda>check anomalies.
             if \<not> passed check then
               (if check_type check = ''Balance Calculation'' then
                  anomalies @ [''Balance discrepancy: Opening balance + transactions does not equal closing balance'']
                else if check_type check = ''Transaction Pattern Analysis'' then
                  anomalies @ [''Unusual pattern: Multiple large round-sum deposits detected'']
                else anomalies)
             else anomalies) checks [];
         recommendations =
           (if is_valid then [''Document appears valid - proceed with standard processing'']
            else [''Request additional verification from customer''] @
                 (if list_ex (\<lambda>c. check_type c = ''Balance Calculation'' \<and> \<not> passed c) checks
                  then [''Verify transaction history with issuing bank''] else []))
     in rreturn (ValidationResult_init class_date doc is_valid risk_score checks
                   anomalies recommendations))))))"

definition validate_payslip :: "datetime \<Rightarrow> Document \<Rightarrow> ValidationResult rand" where
  "validate_payslip class_date doc =
     rbind (random_choice [True, True, False]) (\<lambda>passed0.
     rbind random_random (\<lambda>r0.
     rbind (random_choice [True, True, False]) (\<lambda>passed1.
     rbind random_random (\<lambda>r1.
     rbind (random_choice [True, True, False]) (\<lambda>passed2.
     rbind random_random (\<lambda>r2.
     let checks =
           [\<lparr>check_type = ''Employer Verification'', passed = passed0,
             details = (if r0 > float_0_2 then ''Employer details match registered business''
                        else ''Employer details could not be verified'')\<rparr>,
            \<lparr>check_type = ''Tax Calculation'', passed = passed1,
             details = (if r1 > float_0_2 then ''Tax calculations are correct''
                        else ''Discrepancies found in tax calculations'')\<rparr>,
            \<lparr>check_type = ''Salary Consistency'', passed = passed2,
             details = (if r2 > float_0_2 then ''Salary figures are consistent throughout document''
                        else ''Inconsistent salary figures detected'')\<rparr>,
            \<lparr>check_type = ''Document Format'', passed = True,
             details = ''Document format matches standard payslip format''\<rparr>];
         is_valid = list_all passed checks;
         risk_score = fold (\<lambda>check risk_score.
                         if \<not> passed check then risk_score + 25 else risk_score) checks 15
     in
     rbind (random_randint (- 10) 10) (\<lambda>adjustment.
     let risk_score = risk_score + adjustment;
         risk_score = max 0 (min 100 risk_score);
         anomalies = fold (\<lambda>check anomalies.
             if \<not> passed check then
               (if check_type check = ''Employer Verification'' then
                  anomalies @ [''Employer not found in registered business database'']
                else if check_type check = ''Tax Calculation'' then
                  anomalies @ [''Tax calculation does not match standard rates for income level'']
                else if check_type check = ''Salary Consistency'' then
                  anomalies @ [''Gross salary does not match sum of net pay and deductions'']
                else anomalies)
             else anomalies) checks [];
         recommendations =
           (if is_valid then [''Payslip appears valid - proceed with standard processing'']
            else [''Request additional verification from customer''] @
                 (if list_ex (\<lambda>c. check_type c = ''Employer Verification'' \<and> \<not> passed c) checks
                  then [''Verify employer existence through Companies Registration Office'']
                  else []))
     in rreturn (ValidationResult_init class_date doc is_valid risk_score checks
                   anomalies recommendations))))))))"

definition validate_irp :: "datetime \<Rightarrow> Document \<Rightarrow> ValidationResult rand" where
  "validate_irp class_date doc =
     rbind (random_choice [True, True, False]) (\<lambda>passed1.
     rbind random_random (\<lambda>r1.
     rbind (random_choice [True, True, False]) (\<lambda>passed2.
     rbind random_random (\<lambda>r2.
     let checks =
           [\<lparr>check_type = ''Document Format'', passed = True,
             details = ''Document format matches official IRP card format''\<rparr>,
            \<lparr>check_type = ''Security Features'', passed = passed1,
             details = (if r1 > float_0_2 then ''Security features present and valid''
                        else ''One or more security features could not be verified'')\<rparr>,
            \<lparr>check_type = ''Expiration Date'', passed = passed2,
             details = (if r2 > float_0_2 then ''IRP is current and not expired''
                        else ''IRP appears to be expired'')\<rparr>,
            \<lparr>check_type = ''GNIB Number Format'', passed = True,
             details = ''GNIB number format is valid''\<rparr>];
         is_valid = list_all passed checks;
         risk_score = fold (\<lambda>check risk_score.
                         if \<not> passed check then risk_score + 25 else risk_score) checks 20
     in
     rbind (random_randint (- 10) 10) (\<lambda>adjustment.
     let risk_score = risk_score + adjustment;
         risk_score = max 0 (min 100 risk_score);
         anomalies = fold (\<lambda>check anomalies.
             if \<not> passed check then
               (if check_type check = ''Security Features'' then
                  anomalies @ [''Missing or altered security features detected'']
                else if check_type check = ''Expiration Date'' then
                  anomalies @ [''Document appears to be expired or date has been altered'']
                else anomalies)
             else anomalies) checks [];
         recommendations =
           (if is_valid then [''IRP appears valid - proceed with standard processing'']
            else [''Request physical verification of original document''] @
                 (if list_ex (\<lambda>c. check_type c = ''Security Features'' \<and> \<not> passed c) checks
                  then [''Escalate to fraud department for detailed investigation'']
                  else []))
     in rreturn (ValidationResult_init class_date doc is_valid risk_score checks
                   anomalies recommendations))))))"

definition validate_ppsn :: "datetime \<Rightarrow> Document \<Rightarrow> ValidationResult rand" where
  "validate_ppsn class_date doc =
     rbind (random_choice [True, True, False]) (\<lambda>passed2.
     rbind random_random (\<lambda>r2.
     rbind (random_choice [True, True, False]) (\<lambda>passed3.
     rbind random_random (\<lambda>r3.
     let checks =
           [\<lparr>check_type = ''PPSN Format'', passed = True,
             details = ''PPSN format is valid (7 digits + 1-2 letters)''\<rparr>,
            \<lparr>check_type = ''Document Format'', passed = True,
             details = ''Document format matches official PPSN documentation''\<rparr>,
            \<lparr>check_type = ''Name Matching'', passed = passed2,
             details = (if r2 > float_0_2 then ''Name on document matches application name''
                        else ''Name discrepancy detected'')\<rparr>,
            \<lparr>check_type = ''DOB Consistency'', passed = passed3,
             details = (if r3 > float_0_2 then ''Date of birth is consistent with other documents''
                        else ''Date of birth discrepancy detected'')\<rparr>];
         is_valid = list_all passed checks;
         risk_score = fold (\<lambda>check risk_score.
                         if \<not> passed check then risk_score + 25 else risk_score) checks 15
     in
     rbind (random_randint (- 10) 10) (\<lambda>adjustment.
     let risk_score = risk_score + adjustment;
         risk_score = max 0 (min 100 risk_score);
         anomalies = fold (\<lambda>check anomalies.
             if \<not> passed check then
               (if check_type check = ''Name Matching'' then
                  anomalies @ [''Name on PPSN document does not match name on application'']
                else if check_type check = ''DOB Consistency'' then
                  anomalies @ [''Date of birth on PPSN document does not match other provided documents'']
                else anomalies)
             else anomalies) checks [];
         recommendations =
           (if is_valid then [''PPSN document appears valid - proceed with standard processing'']
            else [''Request additional identification documents''] @
                 (if list_ex (\<lambda>c. check_type c = ''Name Matching'' \<and> \<not> passed c) checks
                  then [''Verify name change documentation if applicable'']
                  else []))
     in rreturn (ValidationResult_init class_date doc is_valid risk_score checks
                   anomalies recommendations))))))"

definition validate_tax_record :: "datetime \<Rightarrow> Document \<Rightarrow> ValidationResult rand" where
  "validate_tax_record class_date doc =
     rbind (random_choice [True, True, False]) (\<lambda>passed2.
     rbind random_random (\<lambda>r2.
     rbind (random_choice [True, True, False]) (\<lambda>passed3.
     rbind random_random (\<lambda>r3.
     rbind (random_choice [True, True, False]) (\<lambda>passed4.
     rbind random_random (\<lambda>r4.
     let checks =
           [\<lparr>check_type = ''Document Format'', passed = True,
             details = ''Document format matches official tax record format''\<rparr>,
            \<lparr>check_type = ''Tax Year Verification'', passed = True,
             details = ''Tax year is current or recent''\<rparr>,
            \<lparr>check_type = ''Income Consistency'', passed = passed2,
             details = (if r2 > float_0_2 then ''Income figures are consistent with other documents''
                        else ''Income discrepancies detected'')\<rparr>,
            \<lparr>check_type = ''Tax Calculation'', passed = passed3,
             details = (if r3 > float_0_2 then ''Tax calculations appear correct''
                        else ''Tax calculation anomalies detected'')\<rparr>,
            \<lparr>check_type = ''Official Stamps/Watermarks'', passed = passed4,
             details = (if r4 > float_0_2 then ''Official stamps/watermarks verified''
                        else ''Official stamps/watermarks could not be verified'')\<rparr>];
         is_valid = list_all passed checks;
         risk_score = fold (\<lambda>check risk_score.
                         if \<not> passed check then risk_score + 20 else risk_score) checks 25
     in
     rbind (random_randint (- 10) 10) (\<lambda>adjustment.
     let risk_score = risk_score + adjustment;
         risk_score = max 0 (min 100 risk_score);
         anomalies = fold (\<lambda>check anomalies.
             if \<not> passed check then
               (if check_type check = ''Income Consistency'' then
                  anomalies @ [''Reported income does not match income on other documents'']
                else if check_type check = ''Tax Calculation'' then
                  anomalies @ [''Tax amounts do not align with standard calculation for reported income'']
                else if check_type check = ''Official Stamps/Watermarks'' then
                  anomalies @ [''Document lacks proper official authentication markers'']
                else anomalies)
             else anomalies) checks [];
         recommendations =
           (if is_valid then [''Tax record appears valid - proceed with standard processing'']
            else [''Request additional verification from tax authority''] @
                 (if list_ex (\<lambda>c. check_type c = ''Income Consistency'' \<and> \<not> passed c) checks
                  then [''Cross-verify income with payslips and bank statements'']
                  else []))
     in rreturn (ValidationResult_init class_date doc is_valid risk_score checks
                   anomalies recommendations))))))))"

text \<open>
  The dispatch on the document type, in the order of the source; the last branch is
  the one for a type that is none of the members, and draws nothing.
\<close>

definition validate_document :: "datetime \<Rightarrow> Document \<Rightarrow> ValidationResult rand" where
  "validate_document class_date doc =
     (if document_type doc = BANK_STATEMENT then validate_bank_statement class_date doc
      else if document_type doc = PAYSLIP then validate_payslip class_date doc
      else if document_type doc = IRP then validate_irp class_date doc
      else if document_type doc = PPSN then validate_ppsn class_date doc
      else if document_type doc = TAX_RECORD then validate_tax_record class_date doc
      else rreturn (ValidationResult_init class_date doc False 100
             [\<lparr>check_type = ''Document Type'', passed = False,
               details = ''Unknown document type''\<rparr>]
             [''Unknown document type'']
             [''Please select a valid document type'']))"

section \<open>The risk score as the specification words it\<close>

text \<open>
  The base value of each type, the increment per failed check, and the score they give
  for a list of checks and an adjustment, written from the specification's sentence;
  the theorem below compares the validators with it.
\<close>

definition base_risk :: "string \<Rightarrow> int" where
  "base_risk t =
     (if t = BANK_STATEMENT then 10 else if t = PAYSLIP then 15 else if t = IRP then 20
      else if t = PPSN then 15 else 25)"

definition failed_check_increment :: "string \<Rightarrow> int" where
  "failed_check_increment t = (if t = BANK_STATEMENT \<or> t = TAX_RECORD then 20 else 25)"

definition specified_risk_score :: "string \<Rightarrow> ValidationCheck list \<Rightarrow> int \<Rightarrow> int" where
  "specified_risk_score t cs adjustment =
     max 0 (min 100 (base_risk t
       + failed_check_increment t * int (length (filter (\<lambda>c. \<not> passed c) cs))
       + adjustment))"

text \<open>
  The number of raw values a validator consumes while it builds its checks, two for
  each check with a drawn \<open>passed\<close> flag; the adjustment is the draw after them.
\<close>

definition check_draws :: "string \<Rightarrow> nat" where
  "check_draws t = (if t = PAYSLIP \<or> t = TAX_RECORD then 6 else 4)"

section \<open>The rule tables, read off the five validators\<close>

text \<open>
  The check types whose \<open>passed\<close> is the literal \<^verbatim>\<open>True\<close>, and those whose \<open>passed\<close>
  is \<^verbatim>\<open>random.choice(...)\<close>, each with the position of the raw value that call consumes.
\<close>

definition fixed_checks :: "string \<Rightarrow> string list" where
  "fixed_checks t =
     (if t = BANK_STATEMENT then
        [''Template Verification'', ''Logo Verification'', ''Account Number Format'']
      else if t = PAYSLIP then [''Document Format'']
      else if t = IRP then [''Document Format'', ''GNIB Number Format'']
      else if t = PPSN then [''PPSN Format'', ''Document Format'']
      else [''Document Format'', ''Tax Year Verification''])"

definition drawn_checks :: "string \<Rightarrow> (string \<times> nat) list" where
  "drawn_checks t =
     (if t = BANK_STATEMENT then
        [(''Balance Calculation'', 0), (''Transaction Pattern Analysis'', 2)]
      else if t = PAYSLIP then
        [(''Employer Verification'', 0), (''Tax Calculation'', 2), (''Salary Consistency'', 4)]
      else if t = IRP then [(''Security Features'', 0), (''Expiration Date'', 2)]
      else if t = PPSN then [(''Name Matching'', 0), (''DOB Consistency'', 2)]
      else [(''Income Consistency'', 0), (''Tax Calculation'', 2),
            (''Official Stamps/Watermarks'', 4)])"

text \<open>The check types that have a branch in the anomaly loop of their validator.\<close>

definition anomaly_mapped :: "string \<Rightarrow> string list" where
  "anomaly_mapped t =
     (if t = BANK_STATEMENT then [''Balance Calculation'', ''Transaction Pattern Analysis'']
      else if t = PAYSLIP then
        [''Employer Verification'', ''Tax Calculation'', ''Salary Consistency'']
      else if t = IRP then [''Security Features'', ''Expiration Date'']
      else if t = PPSN then [''Name Matching'', ''DOB Consistency'']
      else [''Income Consistency'', ''Tax Calculation'', ''Official Stamps/Watermarks''])"

definition mapped_failures :: "string \<Rightarrow> ValidationCheck list \<Rightarrow> ValidationCheck list" where
  "mapped_failures t cs =
     filter (\<lambda>c. \<not> passed c \<and> check_type c \<in> set (anomaly_mapped t)) cs"

section \<open>How often a check passes\<close>

text \<open>
  \<open>set_draw k v g\<close> is the generator state \<open>g\<close> with the raw value at position \<open>k\<close>
  replaced by \<open>v\<close>. \<open>pass_count\<close> runs the validator once for each of the raw values
  \<open>0, \<dots>, 5\<close> at position \<open>k\<close>, the other draws as in \<open>g\<close>, and counts the runs in
  which the check of the given type passes. The six values fall three on each index
  of a two-element sequence and two on each index of a three-element one, so the
  count over six is the probability that a uniform \<^verbatim>\<open>random.choice\<close> at that position
  lets the check pass.
\<close>

definition set_draw :: "nat \<Rightarrow> nat \<Rightarrow> rng \<Rightarrow> rng" where
  "set_draw k v g = stake k g @- (v ## sdrop (Suc k) g)"

definition check_passes :: "datetime \<Rightarrow> Document \<Rightarrow> string \<Rightarrow> rng \<Rightarrow> bool" where
  "check_passes class_date doc name g =
     (case validate_document class_date doc g of
        Inl e \<Rightarrow> False
      | Inr (r, g') \<Rightarrow> list_ex (\<lambda>c. check_type c = name \<and> passed c) (checks r))"

definition pass_count :: "datetime \<Rightarrow> Document \<Rightarrow> string \<Rightarrow> nat \<Rightarrow> rng \<Rightarrow> nat" where
  "pass_count class_date doc name k g =
     length (filter (\<lambda>v. check_passes class_date doc name (set_draw k v g)) [0..<6])"

definition pass_frequency :: "datetime \<Rightarrow> Document \<Rightarrow> string \<Rightarrow> nat \<Rightarrow> rng \<Rightarrow> rat" where
  "pass_frequency class_date doc name k g = of_nat (pass_count class_date doc name k g) / 6"

text \<open>The details texts of the checks of the given type in the result of a run.\<close>

definition check_details :: "datetime \<Rightarrow> Document \<Rightarrow> string \<Rightarrow> rng \<Rightarrow> string list" where
  "check_details class_date doc name g =
     (case validate_document class_date doc g of
        Inl e \<Rightarrow> []
      | Inr (r, g') \<Rightarrow> map details (filter (\<lambda>c. check_type c = name) (checks r)))"

section \<open>Inputs for the closed instances\<close>

text \<open>A document as the upload handler builds it, of the given type.\<close>

definition example_document :: "string \<Rightarrow> Document" where
  "example_document t = \<lparr>file_path = ''uploads/statement.pdf'', document_type = t,
     customer_name = ''Unknown'', customer_id = ''Unknown'', upload_date = 0, metadata = []\<rparr>"

section \<open>Running the validator\<close>

text \<open>
  The three boolean choices and the adjustment, as functions of the raw value drawn.
\<close>

lemma nth_bool2: "[True, False] ! (n mod 2) = even n"
proof -
  have "n mod 2 = 0 \<or> n mod 2 = 1" by presburger
  then show ?thesis by (elim disjE) (simp_all add: even_iff_mod_2_eq_zero)
qed

lemma nth_bool3: "[True, True, False] ! (n mod 3) = (n mod 3 \<noteq> 2)"
proof -
  have "n mod 3 = 0 \<or> n mod 3 = 1 \<or> n mod 3 = 2" by presburger
  then show ?thesis by (elim disjE) simp_all
qed

lemma random_choice_2: "random_choice [True, False] g = Inr (even (shd g), stl g)"
proof -
  have len: "length [True, False] = 2" by simp
  show ?thesis unfolding random_choice_def len nth_bool2 by simp
qed

lemma random_choice_3: "random_choice [True, True, False] g = Inr (shd g mod 3 \<noteq> 2, stl g)"
proof -
  have len: "length [True, True, False] = 3" by simp
  show ?thesis unfolding random_choice_def len nth_bool3 by simp
qed

lemma randint_range: "random_randint (- 10) 10 g = Inr (int (shd g mod 21) - 10, stl g)"
  by (simp add: random_randint_def)

lemma mod_21_le: "n mod 21 \<le> (20::nat)"
  by simp

lemma sdrop_4: "sdrop 4 s = stl (stl (stl (stl s)))"
proof -
  have "(4::nat) = Suc (Suc (Suc (Suc 0)))" by simp
  then show ?thesis by (simp only: sdrop.simps)
qed

lemma sdrop_6: "sdrop 6 s = stl (stl (stl (stl (stl (stl s)))))"
proof -
  have "(6::nat) = Suc (Suc (Suc (Suc (Suc (Suc 0)))))" by simp
  then show ?thesis by (simp only: sdrop.simps)
qed

lemmas run_defs = rbind_def rreturn_def random_choice_2 random_choice_3 random_random_def
  randint_range Let_def ValidationResult_init_def

lemma member_strings:
  "BANK_STATEMENT \<noteq> PAYSLIP" "BANK_STATEMENT \<noteq> IRP" "BANK_STATEMENT \<noteq> PPSN"
  "BANK_STATEMENT \<noteq> TAX_RECORD" "PAYSLIP \<noteq> IRP" "PAYSLIP \<noteq> PPSN" "PAYSLIP \<noteq> TAX_RECORD"
  "IRP \<noteq> PPSN" "IRP \<noteq> TAX_RECORD" "PPSN \<noteq> TAX_RECORD"
  "PAYSLIP \<noteq> BANK_STATEMENT" "IRP \<noteq> BANK_STATEMENT" "PPSN \<noteq> BANK_STATEMENT"
  "TAX_RECORD \<noteq> BANK_STATEMENT" "IRP \<noteq> PAYSLIP" "PPSN \<noteq> PAYSLIP" "TAX_RECORD \<noteq> PAYSLIP"
  "PPSN \<noteq> IRP" "TAX_RECORD \<noteq> IRP" "TAX_RECORD \<noteq> PPSN"
  by (simp_all add: BANK_STATEMENT_def PAYSLIP_def IRP_def PPSN_def TAX_RECORD_def)

lemma validate_document_simps:
  "document_type d = BANK_STATEMENT \<Longrightarrow> validate_document cd d = validate_bank_statement cd d"
  "document_type d = PAYSLIP \<Longrightarrow> validate_document cd d = validate_payslip cd d"
  "document_type d = IRP \<Longrightarrow> validate_document cd d = validate_irp cd d"
  "document_type d = PPSN \<Longrightarrow> validate_document cd d = validate_ppsn cd d"
  "document_type d = TAX_RECORD \<Longrightarrow> validate_document cd d = validate_tax_record cd d"
  by (simp_all add: validate_document_def member_strings)

lemma validate_document_unknown:
  "document_type d \<notin> set DocumentType_members \<Longrightarrow>
   validate_document cd d = rreturn (ValidationResult_init cd d False 100
             [\<lparr>check_type = ''Document Type'', passed = False,
               details = ''Unknown document type''\<rparr>]
             [''Unknown document type'']
             [''Please select a valid document type''])"
  by (simp add: validate_document_def DocumentType_members_def)

lemma known_type_cases [consumes 1, case_names bank payslip irp ppsn tax]:
  assumes "document_type d \<in> set DocumentType_members"
  obtains "document_type d = BANK_STATEMENT" | "document_type d = PAYSLIP"
    | "document_type d = IRP" | "document_type d = PPSN" | "document_type d = TAX_RECORD"
  using assms by (auto simp: DocumentType_members_def)

lemma base_risk_simps:
  "base_risk BANK_STATEMENT = 10" "base_risk PAYSLIP = 15" "base_risk IRP = 20"
  "base_risk PPSN = 15" "base_risk TAX_RECORD = 25"
  by (simp_all add: base_risk_def member_strings)

lemma failed_check_increment_simps:
  "failed_check_increment BANK_STATEMENT = 20" "failed_check_increment PAYSLIP = 25"
  "failed_check_increment IRP = 25" "failed_check_increment PPSN = 25"
  "failed_check_increment TAX_RECORD = 20"
  by (simp_all add: failed_check_increment_def member_strings)

lemma check_draws_simps:
  "check_draws BANK_STATEMENT = 4" "check_draws PAYSLIP = 6" "check_draws IRP = 4"
  "check_draws PPSN = 4" "check_draws TAX_RECORD = 6"
  by (simp_all add: check_draws_def member_strings)

lemma length_filter_Cons:
  "length (filter P (x # xs)) = (if P x then 1 else 0) + length (filter P xs)"
  by simp

lemma anomaly_mapped_simps:
  "anomaly_mapped BANK_STATEMENT = [''Balance Calculation'', ''Transaction Pattern Analysis'']"
  "anomaly_mapped PAYSLIP =
     [''Employer Verification'', ''Tax Calculation'', ''Salary Consistency'']"
  "anomaly_mapped IRP = [''Security Features'', ''Expiration Date'']"
  "anomaly_mapped PPSN = [''Name Matching'', ''DOB Consistency'']"
  "anomaly_mapped TAX_RECORD =
     [''Income Consistency'', ''Tax Calculation'', ''Official Stamps/Watermarks'']"
  by (simp_all add: anomaly_mapped_def member_strings)

lemma stake_7_heads:
  assumes "stake 7 g = stake 7 g'"
  shows "shd g = shd g' \<and> shd (stl g) = shd (stl g') \<and> shd (stl (stl g)) = shd (stl (stl g')) \<and>
    shd (stl (stl (stl g))) = shd (stl (stl (stl g'))) \<and>
    shd (stl (stl (stl (stl g)))) = shd (stl (stl (stl (stl g')))) \<and>
    shd (stl (stl (stl (stl (stl g))))) = shd (stl (stl (stl (stl (stl g'))))) \<and>
    shd (stl (stl (stl (stl (stl (stl g)))))) = shd (stl (stl (stl (stl (stl (stl g'))))))"
proof -
  have seven: "(7::nat) = Suc (Suc (Suc (Suc (Suc (Suc (Suc 0))))))" by simp
  from assms have "stake (Suc (Suc (Suc (Suc (Suc (Suc (Suc 0))))))) g =
      stake (Suc (Suc (Suc (Suc (Suc (Suc (Suc 0))))))) g'"
    by (simp only: seven)
  then show ?thesis by (simp only: stake.simps list.inject)
qed

lemma clamp_range: "0 \<le> max 0 (min 100 (x::int))" "max 0 (min 100 (x::int)) \<le> 100"
  by simp_all

text \<open>
  Each validator returns for every generator state (no call raises); the lemmas below
  read one field of the result, one lemma per validator.
\<close>

lemma is_valid_bank: "\<exists>r g'. validate_bank_statement cd d g = Inr (r, g') \<and> is_valid r = list_all passed (checks r)"
  by (simp add: validate_bank_statement_def run_defs  split del: if_split)
lemma is_valid_payslip: "\<exists>r g'. validate_payslip cd d g = Inr (r, g') \<and> is_valid r = list_all passed (checks r)"
  by (simp add: validate_payslip_def run_defs  split del: if_split)
lemma is_valid_irp: "\<exists>r g'. validate_irp cd d g = Inr (r, g') \<and> is_valid r = list_all passed (checks r)"
  by (simp add: validate_irp_def run_defs  split del: if_split)
lemma is_valid_ppsn: "\<exists>r g'. validate_ppsn cd d g = Inr (r, g') \<and> is_valid r = list_all passed (checks r)"
  by (simp add: validate_ppsn_def run_defs  split del: if_split)
lemma is_valid_tax: "\<exists>r g'. validate_tax_record cd d g = Inr (r, g') \<and> is_valid r = list_all passed (checks r)"
  by (simp add: validate_tax_record_def run_defs  split del: if_split)
lemma risk_range_bank: "\<exists>r g'. validate_bank_statement cd d g = Inr (r, g') \<and> 0 \<le> risk_score r \<and> risk_score r \<le> 100"
  by (simp add: validate_bank_statement_def run_defs clamp_range split del: if_split)
lemma risk_range_payslip: "\<exists>r g'. validate_payslip cd d g = Inr (r, g') \<and> 0 \<le> risk_score r \<and> risk_score r \<le> 100"
  by (simp add: validate_payslip_def run_defs clamp_range split del: if_split)
lemma risk_range_irp: "\<exists>r g'. validate_irp cd d g = Inr (r, g') \<and> 0 \<le> risk_score r \<and> risk_score r \<le> 100"
  by (simp add: validate_irp_def run_defs clamp_range split del: if_split)
lemma risk_range_ppsn: "\<exists>r g'. validate_ppsn cd d g = Inr (r, g') \<and> 0 \<le> risk_score r \<and> risk_score r \<le> 100"
  by (simp add: validate_ppsn_def run_defs clamp_range split del: if_split)
lemma risk_range_tax: "\<exists>r g'. validate_tax_record cd d g = Inr (r, g') \<and> 0 \<le> risk_score r \<and> risk_score r \<le> 100"
  by (simp add: validate_tax_record_def run_defs clamp_range split del: if_split)
lemma date_bank: "\<exists>r g'. validate_bank_statement cd d g = Inr (r, g') \<and> validation_date r = cd"
  by (simp add: validate_bank_statement_def run_defs  split del: if_split)
lemma date_payslip: "\<exists>r g'. validate_payslip cd d g = Inr (r, g') \<and> validation_date r = cd"
  by (simp add: validate_payslip_def run_defs  split del: if_split)
lemma date_irp: "\<exists>r g'. validate_irp cd d g = Inr (r, g') \<and> validation_date r = cd"
  by (simp add: validate_irp_def run_defs  split del: if_split)
lemma date_ppsn: "\<exists>r g'. validate_ppsn cd d g = Inr (r, g') \<and> validation_date r = cd"
  by (simp add: validate_ppsn_def run_defs  split del: if_split)
lemma date_tax: "\<exists>r g'. validate_tax_record cd d g = Inr (r, g') \<and> validation_date r = cd"
  by (simp add: validate_tax_record_def run_defs  split del: if_split)

lemma risk_formula_bank:
  "\<exists>r g' adjustment. validate_bank_statement cd d g = Inr (r, g') \<and>
     random_randint (- 10) 10 (sdrop 4 g) = Inr (adjustment, g') \<and>
     - 10 \<le> adjustment \<and> adjustment \<le> 10 \<and>
     risk_score r = specified_risk_score BANK_STATEMENT (checks r) adjustment"
  apply (simp add: validate_bank_statement_def run_defs specified_risk_score_def base_risk_simps
      failed_check_increment_simps sdrop_4 mod_21_le length_filter_Cons
      del: filter.simps split del: if_split)
  apply simp
  done

lemma risk_formula_payslip:
  "\<exists>r g' adjustment. validate_payslip cd d g = Inr (r, g') \<and>
     random_randint (- 10) 10 (sdrop 6 g) = Inr (adjustment, g') \<and>
     - 10 \<le> adjustment \<and> adjustment \<le> 10 \<and>
     risk_score r = specified_risk_score PAYSLIP (checks r) adjustment"
  apply (simp add: validate_payslip_def run_defs specified_risk_score_def base_risk_simps
      failed_check_increment_simps sdrop_6 mod_21_le length_filter_Cons
      del: filter.simps split del: if_split)
  apply simp
  done

lemma risk_formula_irp:
  "\<exists>r g' adjustment. validate_irp cd d g = Inr (r, g') \<and>
     random_randint (- 10) 10 (sdrop 4 g) = Inr (adjustment, g') \<and>
     - 10 \<le> adjustment \<and> adjustment \<le> 10 \<and>
     risk_score r = specified_risk_score IRP (checks r) adjustment"
  apply (simp add: validate_irp_def run_defs specified_risk_score_def base_risk_simps
      failed_check_increment_simps sdrop_4 mod_21_le length_filter_Cons
      del: filter.simps split del: if_split)
  apply simp
  done

lemma risk_formula_ppsn:
  "\<exists>r g' adjustment. validate_ppsn cd d g = Inr (r, g') \<and>
     random_randint (- 10) 10 (sdrop 4 g) = Inr (adjustment, g') \<and>
     - 10 \<le> adjustment \<and> adjustment \<le> 10 \<and>
     risk_score r = specified_risk_score PPSN (checks r) adjustment"
  apply (simp add: validate_ppsn_def run_defs specified_risk_score_def base_risk_simps
      failed_check_increment_simps sdrop_4 mod_21_le length_filter_Cons
      del: filter.simps split del: if_split)
  apply simp
  done

lemma risk_formula_tax:
  "\<exists>r g' adjustment. validate_tax_record cd d g = Inr (r, g') \<and>
     random_randint (- 10) 10 (sdrop 6 g) = Inr (adjustment, g') \<and>
     - 10 \<le> adjustment \<and> adjustment \<le> 10 \<and>
     risk_score r = specified_risk_score TAX_RECORD (checks r) adjustment"
  apply (simp add: validate_tax_record_def run_defs specified_risk_score_def base_risk_simps
      failed_check_increment_simps sdrop_6 mod_21_le length_filter_Cons
      del: filter.simps split del: if_split)
  apply simp
  done

lemma texts_bank:
  "\<exists>r g'. validate_bank_statement cd d g = Inr (r, g') \<and>
     length (anomalies r) = length (mapped_failures BANK_STATEMENT (checks r)) \<and>
     (is_valid r \<longrightarrow> length (recommendations r) = 1) \<and>
     (\<not> is_valid r \<longrightarrow> 1 \<le> length (recommendations r))"
  apply (simp add: validate_bank_statement_def run_defs mapped_failures_def anomaly_mapped_simps
      length_filter_Cons del: filter.simps split del: if_split)
  apply simp
  done

lemma texts_payslip:
  "\<exists>r g'. validate_payslip cd d g = Inr (r, g') \<and>
     length (anomalies r) = length (mapped_failures PAYSLIP (checks r)) \<and>
     (is_valid r \<longrightarrow> length (recommendations r) = 1) \<and>
     (\<not> is_valid r \<longrightarrow> 1 \<le> length (recommendations r))"
  apply (simp add: validate_payslip_def run_defs mapped_failures_def anomaly_mapped_simps
      length_filter_Cons del: filter.simps split del: if_split)
  apply simp
  done

lemma texts_irp:
  "\<exists>r g'. validate_irp cd d g = Inr (r, g') \<and>
     length (anomalies r) = length (mapped_failures IRP (checks r)) \<and>
     (is_valid r \<longrightarrow> length (recommendations r) = 1) \<and>
     (\<not> is_valid r \<longrightarrow> 1 \<le> length (recommendations r))"
  apply (simp add: validate_irp_def run_defs mapped_failures_def anomaly_mapped_simps
      length_filter_Cons del: filter.simps split del: if_split)
  apply simp
  done

lemma texts_ppsn:
  "\<exists>r g'. validate_ppsn cd d g = Inr (r, g') \<and>
     length (anomalies r) = length (mapped_failures PPSN (checks r)) \<and>
     (is_valid r \<longrightarrow> length (recommendations r) = 1) \<and>
     (\<not> is_valid r \<longrightarrow> 1 \<le> length (recommendations r))"
  apply (simp add: validate_ppsn_def run_defs mapped_failures_def anomaly_mapped_simps
      length_filter_Cons del: filter.simps split del: if_split)
  apply simp
  done

lemma texts_tax:
  "\<exists>r g'. validate_tax_record cd d g = Inr (r, g') \<and>
     length (anomalies r) = length (mapped_failures TAX_RECORD (checks r)) \<and>
     (is_valid r \<longrightarrow> length (recommendations r) = 1) \<and>
     (\<not> is_valid r \<longrightarrow> 1 \<le> length (recommendations r))"
  apply (simp add: validate_tax_record_def run_defs mapped_failures_def anomaly_mapped_simps
      length_filter_Cons del: filter.simps split del: if_split)
  apply simp
  done

lemma same_draws_bank:
  "stake 7 g = stake 7 g' \<Longrightarrow>
   \<exists>r r' h h'. validate_bank_statement cd d g = Inr (r, h) \<and> validate_bank_statement cd' d g' = Inr (r', h') \<and>
     document r = document r' \<and> is_valid r = is_valid r' \<and> risk_score r = risk_score r' \<and>
     checks r = checks r' \<and> anomalies r = anomalies r' \<and>
     recommendations r = recommendations r' "
  using stake_7_heads [of g g']
  by (simp add: validate_bank_statement_def run_defs split del: if_split)

lemma same_draws_payslip:
  "stake 7 g = stake 7 g' \<Longrightarrow>
   \<exists>r r' h h'. validate_payslip cd d g = Inr (r, h) \<and> validate_payslip cd' d g' = Inr (r', h') \<and>
     document r = document r' \<and> is_valid r = is_valid r' \<and> risk_score r = risk_score r' \<and>
     checks r = checks r' \<and> anomalies r = anomalies r' \<and>
     recommendations r = recommendations r' "
  using stake_7_heads [of g g']
  by (simp add: validate_payslip_def run_defs split del: if_split)

lemma same_draws_irp:
  "stake 7 g = stake 7 g' \<Longrightarrow>
   \<exists>r r' h h'. validate_irp cd d g = Inr (r, h) \<and> validate_irp cd' d g' = Inr (r', h') \<and>
     document r = document r' \<and> is_valid r = is_valid r' \<and> risk_score r = risk_score r' \<and>
     checks r = checks r' \<and> anomalies r = anomalies r' \<and>
     recommendations r = recommendations r' "
  using stake_7_heads [of g g']
  by (simp add: validate_irp_def run_defs split del: if_split)

lemma same_draws_ppsn:
  "stake 7 g = stake 7 g' \<Longrightarrow>
   \<exists>r r' h h'. validate_ppsn cd d g = Inr (r, h) \<and> validate_ppsn cd' d g' = Inr (r', h') \<and>
     document r = document r' \<and> is_valid r = is_valid r' \<and> risk_score r = risk_score r' \<and>
     checks r = checks r' \<and> anomalies r = anomalies r' \<and>
     recommendations r = recommendations r' "
  using stake_7_heads [of g g']
  by (simp add: validate_ppsn_def run_defs split del: if_split)

lemma same_draws_tax:
  "stake 7 g = stake 7 g' \<Longrightarrow>
   \<exists>r r' h h'. validate_tax_record cd d g = Inr (r, h) \<and> validate_tax_record cd' d g' = Inr (r', h') \<and>
     document r = document r' \<and> is_valid r = is_valid r' \<and> risk_score r = risk_score r' \<and>
     checks r = checks r' \<and> anomalies r = anomalies r' \<and>
     recommendations r = recommendations r' "
  using stake_7_heads [of g g']
  by (simp add: validate_tax_record_def run_defs split del: if_split)

text \<open>
  Two runs on the bank statement document of the closed instances: every raw value 0
  (both drawn checks pass, adjustment -10) and every raw value 1 (both fail,
  adjustment -9).
\<close>

lemma example_document_type: "document_type (example_document t) = t"
  by (simp add: example_document_def)

lemma example_bank_known:
  "document_type (example_document BANK_STATEMENT) \<in> set DocumentType_members"
  by (simp add: example_document_type DocumentType_members_def)

lemma bank_run_all_pass:
  "validate_document 0 (example_document BANK_STATEMENT) (sconst 0) =
     Inr (\<lparr>document = example_document BANK_STATEMENT, is_valid = True, risk_score = 0,
       checks =
         [\<lparr>check_type = ''Template Verification'', passed = True,
           details = ''Document matches known bank statement template''\<rparr>,
          \<lparr>check_type = ''Logo Verification'', passed = True,
           details = ''Bank logo position and appearance verified''\<rparr>,
          \<lparr>check_type = ''Account Number Format'', passed = True,
           details = ''IBAN format is valid''\<rparr>,
          \<lparr>check_type = ''Balance Calculation'', passed = True,
           details = ''Discrepancy detected in balance calculation''\<rparr>,
          \<lparr>check_type = ''Transaction Pattern Analysis'', passed = True,
           details = ''Unusual transaction patterns detected''\<rparr>],
       anomalies = [],
       recommendations = [''Document appears valid - proceed with standard processing''],
       validation_date = 0\<rparr>, sconst 0)"
  by (simp add: validate_document_simps example_document_type validate_bank_statement_def
      run_defs float_0_3_def)

lemma bank_run_all_fail:
  "validate_document 0 (example_document BANK_STATEMENT) (sconst 1) =
     Inr (\<lparr>document = example_document BANK_STATEMENT, is_valid = False, risk_score = 41,
       checks =
         [\<lparr>check_type = ''Template Verification'', passed = True,
           details = ''Document matches known bank statement template''\<rparr>,
          \<lparr>check_type = ''Logo Verification'', passed = True,
           details = ''Bank logo position and appearance verified''\<rparr>,
          \<lparr>check_type = ''Account Number Format'', passed = True,
           details = ''IBAN format is valid''\<rparr>,
          \<lparr>check_type = ''Balance Calculation'', passed = False,
           details = ''Discrepancy detected in balance calculation''\<rparr>,
          \<lparr>check_type = ''Transaction Pattern Analysis'', passed = False,
           details = ''Unusual transaction patterns detected''\<rparr>],
       anomalies =
         [''Balance discrepancy: Opening balance + transactions does not equal closing balance'',
          ''Unusual pattern: Multiple large round-sum deposits detected''],
       recommendations =
         [''Request additional verification from customer'',
          ''Verify transaction history with issuing bank''],
       validation_date = 0\<rparr>, sconst 1)"
  by (simp add: validate_document_simps example_document_type validate_bank_statement_def
      run_defs float_0_3_def)

text \<open>
  The \<open>passed\<close> flag of every check as a function of the raw values drawn, one
  lemma per validator, and from it when a check of a given type passes.
\<close>

lemma upt_6: "[0..<6] = [0, 1, 2, 3, 4, 5]"
proof -
  have "[0..<Suc (Suc (Suc (Suc (Suc (Suc 0)))))] = [0, Suc 0, Suc (Suc 0), Suc (Suc (Suc 0)),
      Suc (Suc (Suc (Suc 0))), Suc (Suc (Suc (Suc (Suc 0))))]"
    by (simp only: upt_Suc_append upt_0 le0 append_Nil append_Cons if_True)
  moreover have "(6::nat) = Suc (Suc (Suc (Suc (Suc (Suc 0)))))" "(5::nat) = Suc (Suc (Suc (Suc (Suc 0))))"
    "(4::nat) = Suc (Suc (Suc (Suc 0)))" "(3::nat) = Suc (Suc (Suc 0))" "(2::nat) = Suc (Suc 0)"
    "(1::nat) = Suc 0"
    by simp_all
  ultimately show ?thesis by (simp only:)
qed

lemma set_draw_simps:
  "shd (set_draw 0 v g) = v"
  "shd (stl (stl (set_draw 2 v g))) = v"
  "shd (stl (stl (stl (stl (set_draw 4 v g))))) = v"
proof -
  have two: "(2::nat) = Suc (Suc 0)" and four: "(4::nat) = Suc (Suc (Suc (Suc 0)))"
    by simp_all
  show "shd (set_draw 0 v g) = v" by (simp add: set_draw_def)
  show "shd (stl (stl (set_draw 2 v g))) = v" unfolding set_draw_def two by simp
  show "shd (stl (stl (stl (stl (set_draw 4 v g))))) = v" unfolding set_draw_def four by simp
qed

lemma check_passes_flags:
  assumes "validate_document cd d g = Inr (r, g')"
  shows "check_passes cd d name g =
           list_ex (\<lambda>(n, p). n = name \<and> p) (map (\<lambda>c. (check_type c, passed c)) (checks r))"
  using assms by (auto simp: check_passes_def list_ex_iff)

lemma passed_flags_bank:
  "\<exists>r g'. validate_bank_statement cd d g = Inr (r, g') \<and>
     map (\<lambda>c. (check_type c, passed c)) (checks r) =
       [(''Template Verification'', True),
        (''Logo Verification'', True),
        (''Account Number Format'', True),
        (''Balance Calculation'', even (shd g)),
        (''Transaction Pattern Analysis'', even (shd (stl (stl g))))]"
  by (simp add: validate_bank_statement_def run_defs split del: if_split)

lemma check_passes_bank:
  assumes "document_type d = BANK_STATEMENT"
  shows "check_passes cd d name g =
     list_ex (\<lambda>(n, p). n = name \<and> p)
       [(''Template Verification'', True),
        (''Logo Verification'', True),
        (''Account Number Format'', True),
        (''Balance Calculation'', even (shd g)),
        (''Transaction Pattern Analysis'', even (shd (stl (stl g))))]"
proof -
  from passed_flags_bank [of cd d g] assms obtain r g' where
    "validate_document cd d g = Inr (r, g')"
    "map (\<lambda>c. (check_type c, passed c)) (checks r) =
       [(''Template Verification'', True),
        (''Logo Verification'', True),
        (''Account Number Format'', True),
        (''Balance Calculation'', even (shd g)),
        (''Transaction Pattern Analysis'', even (shd (stl (stl g))))]"
    by (auto simp: validate_document_simps)
  then show ?thesis by (simp only: check_passes_flags)
qed

lemma passed_flags_payslip:
  "\<exists>r g'. validate_payslip cd d g = Inr (r, g') \<and>
     map (\<lambda>c. (check_type c, passed c)) (checks r) =
       [(''Employer Verification'', shd g mod 3 \<noteq> 2),
        (''Tax Calculation'', shd (stl (stl g)) mod 3 \<noteq> 2),
        (''Salary Consistency'', shd (stl (stl (stl (stl g)))) mod 3 \<noteq> 2),
        (''Document Format'', True)]"
  by (simp add: validate_payslip_def run_defs split del: if_split)

lemma check_passes_payslip:
  assumes "document_type d = PAYSLIP"
  shows "check_passes cd d name g =
     list_ex (\<lambda>(n, p). n = name \<and> p)
       [(''Employer Verification'', shd g mod 3 \<noteq> 2),
        (''Tax Calculation'', shd (stl (stl g)) mod 3 \<noteq> 2),
        (''Salary Consistency'', shd (stl (stl (stl (stl g)))) mod 3 \<noteq> 2),
        (''Document Format'', True)]"
proof -
  from passed_flags_payslip [of cd d g] assms obtain r g' where
    "validate_document cd d g = Inr (r, g')"
    "map (\<lambda>c. (check_type c, passed c)) (checks r) =
       [(''Employer Verification'', shd g mod 3 \<noteq> 2),
        (''Tax Calculation'', shd (stl (stl g)) mod 3 \<noteq> 2),
        (''Salary Consistency'', shd (stl (stl (stl (stl g)))) mod 3 \<noteq> 2),
        (''Document Format'', True)]"
    by (auto simp: validate_document_simps)
  then show ?thesis by (simp only: check_passes_flags)
qed

lemma passed_flags_irp:
  "\<exists>r g'. validate_irp cd d g = Inr (r, g') \<and>
     map (\<lambda>c. (check_type c, passed c)) (checks r) =
       [(''Document Format'', True),
        (''Security Features'', shd g mod 3 \<noteq> 2),
        (''Expiration Date'', shd (stl (stl g)) mod 3 \<noteq> 2),
        (''GNIB Number Format'', True)]"
  by (simp add: validate_irp_def run_defs split del: if_split)

lemma check_passes_irp:
  assumes "document_type d = IRP"
  shows "check_passes cd d name g =
     list_ex (\<lambda>(n, p). n = name \<and> p)
       [(''Document Format'', True),
        (''Security Features'', shd g mod 3 \<noteq> 2),
        (''Expiration Date'', shd (stl (stl g)) mod 3 \<noteq> 2),
        (''GNIB Number Format'', True)]"
proof -
  from passed_flags_irp [of cd d g] assms obtain r g' where
    "validate_document cd d g = Inr (r, g')"
    "map (\<lambda>c. (check_type c, passed c)) (checks r) =
       [(''Document Format'', True),
        (''Security Features'', shd g mod 3 \<noteq> 2),
        (''Expiration Date'', shd (stl (stl g)) mod 3 \<noteq> 2),
        (''GNIB Number Format'', True)]"
    by (auto simp: validate_document_simps)
  then show ?thesis by (simp only: check_passes_flags)
qed

lemma passed_flags_ppsn:
  "\<exists>r g'. validate_ppsn cd d g = Inr (r, g') \<and>
     map (\<lambda>c. (check_type c, passed c)) (checks r) =
       [(''PPSN Format'', True),
        (''Document Format'', True),
        (''Name Matching'', shd g mod 3 \<noteq> 2),
        (''DOB Consistency'', shd (stl (stl g)) mod 3 \<noteq> 2)]"
  by (simp add: validate_ppsn_def run_defs split del: if_split)

lemma check_passes_ppsn:
  assumes "document_type d = PPSN"
  shows "check_passes cd d name g =
     list_ex (\<lambda>(n, p). n = name \<and> p)
       [(''PPSN Format'', True),
        (''Document Format'', True),
        (''Name Matching'', shd g mod 3 \<noteq> 2),
        (''DOB Consistency'', shd (stl (stl g)) mod 3 \<noteq> 2)]"
proof -
  from passed_flags_ppsn [of cd d g] assms obtain r g' where
    "validate_document cd d g = Inr (r, g')"
    "map (\<lambda>c. (check_type c, passed c)) (checks r) =
       [(''PPSN Format'', True),
        (''Document Format'', True),
        (''Name Matching'', shd g mod 3 \<noteq> 2),
        (''DOB Consistency'', shd (stl (stl g)) mod 3 \<noteq> 2)]"
    by (auto simp: validate_document_simps)
  then show ?thesis by (simp only: check_passes_flags)
qed

lemma passed_flags_tax:
  "\<exists>r g'. validate_tax_record cd d g = Inr (r, g') \<and>
     map (\<lambda>c. (check_type c, passed c)) (checks r) =
       [(''Document Format'', True),
        (''Tax Year Verification'', True),
        (''Income Consistency'', shd g mod 3 \<noteq> 2),
        (''Tax Calculation'', shd (stl (stl g)) mod 3 \<noteq> 2),
        (''Official Stamps/Watermarks'', shd (stl (stl (stl (stl g)))) mod 3 \<noteq> 2)]"
  by (simp add: validate_tax_record_def run_defs split del: if_split)

lemma check_passes_tax:
  assumes "document_type d = TAX_RECORD"
  shows "check_passes cd d name g =
     list_ex (\<lambda>(n, p). n = name \<and> p)
       [(''Document Format'', True),
        (''Tax Year Verification'', True),
        (''Income Consistency'', shd g mod 3 \<noteq> 2),
        (''Tax Calculation'', shd (stl (stl g)) mod 3 \<noteq> 2),
        (''Official Stamps/Watermarks'', shd (stl (stl (stl (stl g)))) mod 3 \<noteq> 2)]"
proof -
  from passed_flags_tax [of cd d g] assms obtain r g' where
    "validate_document cd d g = Inr (r, g')"
    "map (\<lambda>c. (check_type c, passed c)) (checks r) =
       [(''Document Format'', True),
        (''Tax Year Verification'', True),
        (''Income Consistency'', shd g mod 3 \<noteq> 2),
        (''Tax Calculation'', shd (stl (stl g)) mod 3 \<noteq> 2),
        (''Official Stamps/Watermarks'', shd (stl (stl (stl (stl g)))) mod 3 \<noteq> 2)]"
    by (auto simp: validate_document_simps)
  then show ?thesis by (simp only: check_passes_flags)
qed

lemma fixed_checks_simps:
  "fixed_checks BANK_STATEMENT =
     [''Template Verification'', ''Logo Verification'', ''Account Number Format'']"
  "fixed_checks PAYSLIP = [''Document Format'']"
  "fixed_checks IRP = [''Document Format'', ''GNIB Number Format'']"
  "fixed_checks PPSN = [''PPSN Format'', ''Document Format'']"
  "fixed_checks TAX_RECORD = [''Document Format'', ''Tax Year Verification'']"
  by (simp_all add: fixed_checks_def member_strings)

lemma drawn_checks_simps:
  "drawn_checks BANK_STATEMENT =
     [(''Balance Calculation'', 0), (''Transaction Pattern Analysis'', 2)]"
  "drawn_checks PAYSLIP =
     [(''Employer Verification'', 0), (''Tax Calculation'', 2), (''Salary Consistency'', 4)]"
  "drawn_checks IRP = [(''Security Features'', 0), (''Expiration Date'', 2)]"
  "drawn_checks PPSN = [(''Name Matching'', 0), (''DOB Consistency'', 2)]"
  "drawn_checks TAX_RECORD =
     [(''Income Consistency'', 0), (''Tax Calculation'', 2), (''Official Stamps/Watermarks'', 4)]"
  by (simp_all add: drawn_checks_def member_strings)

lemma check_types_bank:
  "\<exists>r g'. validate_bank_statement cd d g = Inr (r, g') \<and>
     set (map check_type (checks r)) =
       set (fixed_checks BANK_STATEMENT) \<union> set (map fst (drawn_checks BANK_STATEMENT))"
  by (simp add: validate_bank_statement_def run_defs fixed_checks_simps drawn_checks_simps
      split del: if_split; auto)

lemma frequencies_bank:
  assumes "document_type d = BANK_STATEMENT"
  shows "list_all (\<lambda>name. check_passes cd d name g) (fixed_checks BANK_STATEMENT) \<and>
    list_all (\<lambda>(name, k). pass_frequency cd d name k g = 1 / 2) (drawn_checks BANK_STATEMENT)"
  by (simp add: fixed_checks_simps drawn_checks_simps pass_frequency_def pass_count_def
      upt_6 check_passes_bank [OF assms] set_draw_simps)

lemma check_types_payslip:
  "\<exists>r g'. validate_payslip cd d g = Inr (r, g') \<and>
     set (map check_type (checks r)) =
       set (fixed_checks PAYSLIP) \<union> set (map fst (drawn_checks PAYSLIP))"
  by (simp add: validate_payslip_def run_defs fixed_checks_simps drawn_checks_simps
      split del: if_split; auto)

lemma frequencies_payslip:
  assumes "document_type d = PAYSLIP"
  shows "list_all (\<lambda>name. check_passes cd d name g) (fixed_checks PAYSLIP) \<and>
    list_all (\<lambda>(name, k). pass_frequency cd d name k g = 2 / 3) (drawn_checks PAYSLIP)"
  by (simp add: fixed_checks_simps drawn_checks_simps pass_frequency_def pass_count_def
      upt_6 check_passes_payslip [OF assms] set_draw_simps)

lemma check_types_irp:
  "\<exists>r g'. validate_irp cd d g = Inr (r, g') \<and>
     set (map check_type (checks r)) =
       set (fixed_checks IRP) \<union> set (map fst (drawn_checks IRP))"
  by (simp add: validate_irp_def run_defs fixed_checks_simps drawn_checks_simps
      split del: if_split; auto)

lemma frequencies_irp:
  assumes "document_type d = IRP"
  shows "list_all (\<lambda>name. check_passes cd d name g) (fixed_checks IRP) \<and>
    list_all (\<lambda>(name, k). pass_frequency cd d name k g = 2 / 3) (drawn_checks IRP)"
  by (simp add: fixed_checks_simps drawn_checks_simps pass_frequency_def pass_count_def
      upt_6 check_passes_irp [OF assms] set_draw_simps)

lemma check_types_ppsn:
  "\<exists>r g'. validate_ppsn cd d g = Inr (r, g') \<and>
     set (map check_type (checks r)) =
       set (fixed_checks PPSN) \<union> set (map fst (drawn_checks PPSN))"
  by (simp add: validate_ppsn_def run_defs fixed_checks_simps drawn_checks_simps
      split del: if_split; auto)

lemma frequencies_ppsn:
  assumes "document_type d = PPSN"
  shows "list_all (\<lambda>name. check_passes cd d name g) (fixed_checks PPSN) \<and>
    list_all (\<lambda>(name, k). pass_frequency cd d name k g = 2 / 3) (drawn_checks PPSN)"
  by (simp add: fixed_checks_simps drawn_checks_simps pass_frequency_def pass_count_def
      upt_6 check_passes_ppsn [OF assms] set_draw_simps)

lemma check_types_tax:
  "\<exists>r g'. validate_tax_record cd d g = Inr (r, g') \<and>
     set (map check_type (checks r)) =
       set (fixed_checks TAX_RECORD) \<union> set (map fst (drawn_checks TAX_RECORD))"
  by (simp add: validate_tax_record_def run_defs fixed_checks_simps drawn_checks_simps
      split del: if_split; auto)

lemma frequencies_tax:
  assumes "document_type d = TAX_RECORD"
  shows "list_all (\<lambda>name. check_passes cd d name g) (fixed_checks TAX_RECORD) \<and>
    list_all (\<lambda>(name, k). pass_frequency cd d name k g = 2 / 3) (drawn_checks TAX_RECORD)"
  by (simp add: fixed_checks_simps drawn_checks_simps pass_frequency_def pass_count_def
      upt_6 check_passes_tax [OF assms] set_draw_simps)

text \<open>
  The details texts of the checks of a given type as a function of the raw values
  drawn, one lemma per validator, and the two draws behind the check
  ``Balance Calculation'' of a bank statement.
\<close>

lemma check_details_bank:
  assumes "document_type d = BANK_STATEMENT"
  shows "check_details cd d name g =
    map details (filter (\<lambda>c. check_type c = name)
      [\<lparr>check_type = ''Template Verification'', passed = True,
        details = ''Document matches known bank statement template''\<rparr>,
       \<lparr>check_type = ''Logo Verification'', passed = True,
        details = ''Bank logo position and appearance verified''\<rparr>,
       \<lparr>check_type = ''Account Number Format'', passed = True,
        details = ''IBAN format is valid''\<rparr>,
       \<lparr>check_type = ''Balance Calculation'', passed = (even (shd g)),
        details = (if of_nat (shd (stl g) mod 2 ^ 53) / 2 ^ 53 > float_0_3 then
                     ''Opening balance + transactions = closing balance''
                   else ''Discrepancy detected in balance calculation'')\<rparr>,
       \<lparr>check_type = ''Transaction Pattern Analysis'', passed = (even (shd (stl (stl g)))),
        details = (if of_nat (shd (stl (stl (stl g))) mod 2 ^ 53) / 2 ^ 53 > float_0_3 then
                     ''Transaction patterns appear normal''
                   else ''Unusual transaction patterns detected'')\<rparr>])"
  using assms
  by (simp add: check_details_def validate_document_simps validate_bank_statement_def run_defs
      split del: if_split)

lemma check_details_payslip:
  assumes "document_type d = PAYSLIP"
  shows "check_details cd d name g =
    map details (filter (\<lambda>c. check_type c = name)
      [\<lparr>check_type = ''Employer Verification'', passed = (shd g mod 3 \<noteq> 2),
        details = (if of_nat (shd (stl g) mod 2 ^ 53) / 2 ^ 53 > float_0_2 then
                     ''Employer details match registered business''
                   else ''Employer details could not be verified'')\<rparr>,
       \<lparr>check_type = ''Tax Calculation'', passed = (shd (stl (stl g)) mod 3 \<noteq> 2),
        details = (if of_nat (shd (stl (stl (stl g))) mod 2 ^ 53) / 2 ^ 53 > float_0_2 then
                     ''Tax calculations are correct''
                   else ''Discrepancies found in tax calculations'')\<rparr>,
       \<lparr>check_type = ''Salary Consistency'', passed = (shd (stl (stl (stl (stl g)))) mod 3 \<noteq> 2),
        details = (if of_nat (shd (stl (stl (stl (stl (stl g))))) mod 2 ^ 53) / 2 ^ 53 > float_0_2 then
                     ''Salary figures are consistent throughout document''
                   else ''Inconsistent salary figures detected'')\<rparr>,
       \<lparr>check_type = ''Document Format'', passed = True,
        details = ''Document format matches standard payslip format''\<rparr>])"
  using assms
  by (simp add: check_details_def validate_document_simps validate_payslip_def run_defs
      split del: if_split)

lemma check_details_irp:
  assumes "document_type d = IRP"
  shows "check_details cd d name g =
    map details (filter (\<lambda>c. check_type c = name)
      [\<lparr>check_type = ''Document Format'', passed = True,
        details = ''Document format matches official IRP card format''\<rparr>,
       \<lparr>check_type = ''Security Features'', passed = (shd g mod 3 \<noteq> 2),
        details = (if of_nat (shd (stl g) mod 2 ^ 53) / 2 ^ 53 > float_0_2 then
                     ''Security features present and valid''
                   else ''One or more security features could not be verified'')\<rparr>,
       \<lparr>check_type = ''Expiration Date'', passed = (shd (stl (stl g)) mod 3 \<noteq> 2),
        details = (if of_nat (shd (stl (stl (stl g))) mod 2 ^ 53) / 2 ^ 53 > float_0_2 then
                     ''IRP is current and not expired''
                   else ''IRP appears to be expired'')\<rparr>,
       \<lparr>check_type = ''GNIB Number Format'', passed = True,
        details = ''GNIB number format is valid''\<rparr>])"
  using assms
  by (simp add: check_details_def validate_document_simps validate_irp_def run_defs
      split del: if_split)

lemma check_details_ppsn:
  assumes "document_type d = PPSN"
  shows "check_details cd d name g =
    map details (filter (\<lambda>c. check_type c = name)
      [\<lparr>check_type = ''PPSN Format'', passed = True,
        details = ''PPSN format is valid (7 digits + 1-2 letters)''\<rparr>,
       \<lparr>check_type = ''Document Format'', passed = True,
        details = ''Document format matches official PPSN documentation''\<rparr>,
       \<lparr>check_type = ''Name Matching'', passed = (shd g mod 3 \<noteq> 2),
        details = (if of_nat (shd (stl g) mod 2 ^ 53) / 2 ^ 53 > float_0_2 then
                     ''Name on document matches application name''
                   else ''Name discrepancy detected'')\<rparr>,
       \<lparr>check_type = ''DOB Consistency'', passed = (shd (stl (stl g)) mod 3 \<noteq> 2),
        details = (if of_nat (shd (stl (stl (stl g))) mod 2 ^ 53) / 2 ^ 53 > float_0_2 then
                     ''Date of birth is consistent with other documents''
                   else ''Date of birth discrepancy detected'')\<rparr>])"
  using assms
  by (simp add: check_details_def validate_document_simps validate_ppsn_def run_defs
      split del: if_split)

lemma check_details_tax:
  assumes "document_type d = TAX_RECORD"
  shows "check_details cd d name g =
    map details (filter (\<lambda>c. check_type c = name)
      [\<lparr>check_type = ''Document Format'', passed = True,
        details = ''Document format matches official tax record format''\<rparr>,
       \<lparr>check_type = ''Tax Year Verification'', passed = True,
        details = ''Tax year is current or recent''\<rparr>,
       \<lparr>check_type = ''Income Consistency'', passed = (shd g mod 3 \<noteq> 2),
        details = (if of_nat (shd (stl g) mod 2 ^ 53) / 2 ^ 53 > float_0_2 then
                     ''Income figures are consistent with other documents''
                   else ''Income discrepancies detected'')\<rparr>,
       \<lparr>check_type = ''Tax Calculation'', passed = (shd (stl (stl g)) mod 3 \<noteq> 2),
        details = (if of_nat (shd (stl (stl (stl g))) mod 2 ^ 53) / 2 ^ 53 > float_0_2 then
                     ''Tax calculations appear correct''
                   else ''Tax calculation anomalies detected'')\<rparr>,
       \<lparr>check_type = ''Official Stamps/Watermarks'', passed = (shd (stl (stl (stl (stl g)))) mod 3 \<noteq> 2),
        details = (if of_nat (shd (stl (stl (stl (stl (stl g))))) mod 2 ^ 53) / 2 ^ 53 > float_0_2 then
                     ''Official stamps/watermarks verified''
                   else ''Official stamps/watermarks could not be verified'')\<rparr>])"
  using assms
  by (simp add: check_details_def validate_document_simps validate_tax_record_def run_defs
      split del: if_split)

lemma snth_heads:
  "s !! 0 = shd s" "s !! Suc 0 = shd (stl s)" "s !! 2 = shd (stl (stl s))"
  "s !! 3 = shd (stl (stl (stl s)))" "s !! 4 = shd (stl (stl (stl (stl s))))"
  "s !! 5 = shd (stl (stl (stl (stl (stl s)))))"
proof -
  have n: "(2::nat) = Suc (Suc 0)" "(3::nat) = Suc (Suc (Suc 0))"
    "(4::nat) = Suc (Suc (Suc (Suc 0)))" "(5::nat) = Suc (Suc (Suc (Suc (Suc 0))))"
    by simp_all
  show "s !! 0 = shd s" "s !! Suc 0 = shd (stl s)" by simp_all
  show "s !! 2 = shd (stl (stl s))" "s !! 3 = shd (stl (stl (stl s)))"
    "s !! 4 = shd (stl (stl (stl (stl s))))" "s !! 5 = shd (stl (stl (stl (stl (stl s)))))"
    unfolding n by simp_all
qed

lemma bank_fail_with_success_text:
  assumes "document_type d = BANK_STATEMENT"
  shows "\<exists>g r g'. validate_document cd d g = Inr (r, g') \<and>
            list_ex (\<lambda>c. check_type c = ''Balance Calculation'' \<and> \<not> passed c \<and>
                       details c = ''Opening balance + transactions = closing balance'')
              (checks r)"
  using assms
  by (intro exI [of _ "1 ## (2 ^ 53 - 1) ## sconst 0"])
    (simp add: validate_document_simps validate_bank_statement_def run_defs float_0_3_def)

lemma bank_pass_with_failure_text:
  assumes "document_type d = BANK_STATEMENT"
  shows "\<exists>g r g'. validate_document cd d g = Inr (r, g') \<and>
            list_ex (\<lambda>c. check_type c = ''Balance Calculation'' \<and> passed c \<and>
                       details c = ''Discrepancy detected in balance calculation'')
              (checks r)"
  using assms
  by (intro exI [of _ "sconst 0"])
    (simp add: validate_document_simps validate_bank_statement_def run_defs float_0_3_def)

lemma bank_balance_draws:
  assumes "document_type d = BANK_STATEMENT"
  shows "random_choice [True, False] g
           = Inr (check_passes cd d ''Balance Calculation'' g, stl g) \<and>
         (\<exists>x. random_random (stl g) = Inr (x, stl (stl g)) \<and>
              check_details cd d ''Balance Calculation'' g =
                [if x > float_0_3 then ''Opening balance + transactions = closing balance''
                 else ''Discrepancy detected in balance calculation''])"
proof -
  let ?x = "of_nat (shd (stl g) mod 2 ^ 53) / 2 ^ 53 :: rat"
  have flag_eq: "random_choice [True, False] g
           = Inr (check_passes cd d ''Balance Calculation'' g, stl g)"
    by (simp add: random_choice_2 check_passes_bank [OF assms])
  have draw_eq: "random_random (stl g) = Inr (?x, stl (stl g))"
    by (simp only: random_random_def)
  have details_eq: "check_details cd d ''Balance Calculation'' g =
                [if ?x > float_0_3 then ''Opening balance + transactions = closing balance''
                 else ''Discrepancy detected in balance calculation'']"
    unfolding check_details_bank [OF assms] by simp
  have "\<exists>x. random_random (stl g) = Inr (x, stl (stl g)) \<and>
              check_details cd d ''Balance Calculation'' g =
                [if x > float_0_3 then ''Opening balance + transactions = closing balance''
                 else ''Discrepancy detected in balance calculation'']"
    by (rule exI [of _ ?x]) (rule conjI [OF draw_eq details_eq])
  with flag_eq show ?thesis by (rule conjI)
qed

section \<open>Invariants of the result\<close>

text \<open>
  C1. For every document, of a known type or not, and every sequence of draws,
  \<open>validate_document\<close> returns a result whose \<open>is_valid\<close> is the conjunction of
  the \<open>passed\<close> flags of its checks.
\<close>

theorem is_valid_is_all_passed:
  "\<exists>r g'. validate_document cd d g = Inr (r, g') \<and> is_valid r = list_all passed (checks r)"
proof (cases "document_type d \<in> set DocumentType_members")
  case True
  then show ?thesis
  proof (cases rule: known_type_cases)
    case bank
    then show ?thesis using is_valid_bank [of cd d g] by (simp add: validate_document_simps)
  next
    case payslip
    then show ?thesis using is_valid_payslip [of cd d g] by (simp add: validate_document_simps)
  next
    case irp
    then show ?thesis using is_valid_irp [of cd d g] by (simp add: validate_document_simps)
  next
    case ppsn
    then show ?thesis using is_valid_ppsn [of cd d g] by (simp add: validate_document_simps)
  next
    case tax
    then show ?thesis using is_valid_tax [of cd d g] by (simp add: validate_document_simps)
  qed
next
  case False
  then show ?thesis
    by (simp add: validate_document_unknown rreturn_def ValidationResult_init_def)
qed

text \<open>
  C2. For every document and every sequence of draws, the risk score of the result
  lies between 0 and 100, both included.
\<close>

theorem risk_score_in_range:
  "\<exists>r g'. validate_document cd d g = Inr (r, g') \<and> 0 \<le> risk_score r \<and> risk_score r \<le> 100"
proof (cases "document_type d \<in> set DocumentType_members")
  case True
  then show ?thesis
  proof (cases rule: known_type_cases)
    case bank
    then show ?thesis using risk_range_bank [of cd d g] by (simp add: validate_document_simps)
  next
    case payslip
    then show ?thesis using risk_range_payslip [of cd d g] by (simp add: validate_document_simps)
  next
    case irp
    then show ?thesis using risk_range_irp [of cd d g] by (simp add: validate_document_simps)
  next
    case ppsn
    then show ?thesis using risk_range_ppsn [of cd d g] by (simp add: validate_document_simps)
  next
    case tax
    then show ?thesis using risk_range_tax [of cd d g] by (simp add: validate_document_simps)
  qed
next
  case False
  then show ?thesis
    by (simp add: validate_document_unknown rreturn_def ValidationResult_init_def)
qed

section \<open>Unknown document type\<close>

text \<open>
  C3. For a document whose type is none of the five members, \<open>validate_document\<close>
  returns, without raising and without drawing, the fixed result: not valid, risk
  score 100, the single failing check ``Document Type'', one anomaly and one
  recommendation.
\<close>

theorem unknown_type_fixed_result:
  assumes "document_type d \<notin> set DocumentType_members"
  shows "\<exists>r. validate_document cd d g = Inr (r, g) \<and> document r = d \<and> is_valid r = False \<and>
           risk_score r = 100 \<and>
           checks r = [\<lparr>check_type = ''Document Type'', passed = False,
                        details = ''Unknown document type''\<rparr>] \<and>
           anomalies r = [''Unknown document type''] \<and>
           recommendations r = [''Please select a valid document type''] \<and>
           length (checks r) = 1 \<and> length (anomalies r) = 1 \<and> length (recommendations r) = 1"
  using assms
  by (simp add: validate_document_unknown rreturn_def ValidationResult_init_def)

theorem unknown_type_fixed_result_witness:
  "document_type (example_document ''passport'') \<notin> set DocumentType_members \<and>
   (\<exists>r. validate_document 0 (example_document ''passport'') (sconst 0) = Inr (r, sconst 0) \<and>
      document r = example_document ''passport'' \<and> is_valid r = False \<and> risk_score r = 100 \<and>
      checks r = [\<lparr>check_type = ''Document Type'', passed = False,
                   details = ''Unknown document type''\<rparr>] \<and>
      anomalies r = [''Unknown document type''] \<and>
      recommendations r = [''Please select a valid document type''] \<and>
      length (checks r) = 1 \<and> length (anomalies r) = 1 \<and> length (recommendations r) = 1)"
proof -
  have h: "document_type (example_document ''passport'') \<notin> set DocumentType_members"
    by (simp add: example_document_def DocumentType_members_def BANK_STATEMENT_def
        PAYSLIP_def IRP_def PPSN_def TAX_RECORD_def)
  show ?thesis
    using h unknown_type_fixed_result [OF h, of 0 "sconst 0"] by simp
qed

section \<open>The validation date\<close>

text \<open>
  C9. Every result carries as \<open>validation_date\<close> the value that \<^verbatim>\<open>datetime.now()\<close>
  had when the class \<open>ValidationResult\<close> was defined, whatever the document and the
  draws: no path of the validator sets the field.
\<close>

theorem validation_date_is_class_constant:
  "\<exists>r g'. validate_document cd d g = Inr (r, g') \<and> validation_date r = cd"
proof (cases "document_type d \<in> set DocumentType_members")
  case True
  then show ?thesis
  proof (cases rule: known_type_cases)
    case bank
    then show ?thesis using date_bank [of cd d g] by (simp add: validate_document_simps)
  next
    case payslip
    then show ?thesis using date_payslip [of cd d g] by (simp add: validate_document_simps)
  next
    case irp
    then show ?thesis using date_irp [of cd d g] by (simp add: validate_document_simps)
  next
    case ppsn
    then show ?thesis using date_ppsn [of cd d g] by (simp add: validate_document_simps)
  next
    case tax
    then show ?thesis using date_tax [of cd d g] by (simp add: validate_document_simps)
  qed
next
  case False
  then show ?thesis
    by (simp add: validate_document_unknown rreturn_def ValidationResult_init_def)
qed


section \<open>The risk score\<close>

text \<open>
  C4. For every known document type and every sequence of draws, the risk score is
  the clamp to [0, 100] of the base value of the type (bank statement 10, payslip 15,
  IRP 20, PPSN 15, tax record 25, all within 10 to 25), plus the increment of the type
  (20 for bank statement and tax record, 25 for the others, within 20 to 25) for each
  check that did not pass, plus the adjustment: the one value that
  \<^verbatim>\<open>randint(-10, 10)\<close> draws after the draws of the checks, between -10 and 10.
\<close>

theorem risk_score_formula:
  assumes "document_type d \<in> set DocumentType_members"
  shows "\<exists>r g' adjustment. validate_document cd d g = Inr (r, g') \<and>
     random_randint (- 10) 10 (sdrop (check_draws (document_type d)) g) = Inr (adjustment, g') \<and>
     - 10 \<le> adjustment \<and> adjustment \<le> 10 \<and>
     risk_score r = specified_risk_score (document_type d) (checks r) adjustment \<and>
     10 \<le> base_risk (document_type d) \<and> base_risk (document_type d) \<le> 25 \<and>
     20 \<le> failed_check_increment (document_type d) \<and>
     failed_check_increment (document_type d) \<le> 25"
  using assms
proof (cases rule: known_type_cases)
  case bank
  then show ?thesis using risk_formula_bank [of cd d g]
    by (simp add: validate_document_simps check_draws_simps base_risk_simps failed_check_increment_simps)
next
  case payslip
  then show ?thesis using risk_formula_payslip [of cd d g]
    by (simp add: validate_document_simps check_draws_simps base_risk_simps failed_check_increment_simps)
next
  case irp
  then show ?thesis using risk_formula_irp [of cd d g]
    by (simp add: validate_document_simps check_draws_simps base_risk_simps failed_check_increment_simps)
next
  case ppsn
  then show ?thesis using risk_formula_ppsn [of cd d g]
    by (simp add: validate_document_simps check_draws_simps base_risk_simps failed_check_increment_simps)
next
  case tax
  then show ?thesis using risk_formula_tax [of cd d g]
    by (simp add: validate_document_simps check_draws_simps base_risk_simps failed_check_increment_simps)
qed

theorem risk_score_formula_witness:
  "document_type (example_document BANK_STATEMENT) \<in> set DocumentType_members \<and>
   (\<exists>r g' adjustment.
      validate_document 0 (example_document BANK_STATEMENT) (sconst 1) = Inr (r, g') \<and>
      random_randint (- 10) 10 (sdrop (check_draws BANK_STATEMENT) (sconst 1))
        = Inr (adjustment, g') \<and>
      adjustment = - 9 \<and> length (filter (\<lambda>c. \<not> passed c) (checks r)) = 2 \<and>
      risk_score r = specified_risk_score BANK_STATEMENT (checks r) adjustment \<and>
      risk_score r = 41)"
proof -
  note h = example_bank_known
  from risk_score_formula [OF h, of 0 "sconst 1"]
  obtain r g' adjustment where
    run: "validate_document 0 (example_document BANK_STATEMENT) (sconst 1) = Inr (r, g')" and
    adj: "random_randint (- 10) 10 (sdrop (check_draws BANK_STATEMENT) (sconst 1))
        = Inr (adjustment, g')" and
    score: "risk_score r = specified_risk_score BANK_STATEMENT (checks r) adjustment"
    unfolding example_document_type by blast
  from adj have a: "adjustment = - 9"
    by (simp add: check_draws_simps sdrop_4 randint_range)
  from run have n: "length (filter (\<lambda>c. \<not> passed c) (checks r)) = 2"
    unfolding bank_run_all_fail by auto
  from run have s: "risk_score r = 41"
    unfolding bank_run_all_fail by auto
  from h run adj a n score s show ?thesis by blast
qed

text \<open>
  C7. For a bank statement, of base value 10, the result has five checks, and when
  all of them pass the risk score lies within [base - 10, base + 10], that is [0, 20],
  for every sequence of draws.
\<close>

theorem all_pass_bank_statement_score:
  assumes "document_type d = BANK_STATEMENT"
  shows "\<exists>r g'. validate_document cd d g = Inr (r, g') \<and> length (checks r) = 5 \<and>
           base_risk (document_type d) = 10 \<and>
           (list_all passed (checks r) \<longrightarrow>
              base_risk (document_type d) - 10 \<le> risk_score r \<and>
              risk_score r \<le> base_risk (document_type d) + 10 \<and>
              0 \<le> risk_score r \<and> risk_score r \<le> 20)"
  using assms
  by (simp add: validate_document_simps validate_bank_statement_def run_defs mod_21_le
      base_risk_simps split del: if_split)

theorem all_pass_bank_statement_score_witness:
  "document_type (example_document BANK_STATEMENT) = BANK_STATEMENT \<and>
   (\<exists>r g'. validate_document 0 (example_document BANK_STATEMENT) (sconst 0) = Inr (r, g') \<and>
      length (checks r) = 5 \<and> list_all passed (checks r) \<and>
      0 \<le> risk_score r \<and> risk_score r \<le> 20 \<and> risk_score r = 0)"
proof -
  have h: "document_type (example_document BANK_STATEMENT) = BANK_STATEMENT"
    by (rule example_document_type)
  from all_pass_bank_statement_score [OF h, of 0 "sconst 0"]
  obtain r g' where run: "validate_document 0 (example_document BANK_STATEMENT) (sconst 0) = Inr (r, g')"
    and len: "length (checks r) = 5"
    and score: "list_all passed (checks r) \<longrightarrow>
        base_risk (document_type (example_document BANK_STATEMENT)) - 10 \<le> risk_score r \<and>
        risk_score r \<le> base_risk (document_type (example_document BANK_STATEMENT)) + 10 \<and>
        0 \<le> risk_score r \<and> risk_score r \<le> 20"
    by blast
  from run have all_pass: "list_all passed (checks r)" and zero: "risk_score r = 0"
    unfolding bank_run_all_pass by auto
  from score all_pass have "0 \<le> risk_score r \<and> risk_score r \<le> 20" by blast
  with h run len all_pass zero show ?thesis by blast
qed

section \<open>Anomalies and recommendations\<close>

text \<open>
  C8. For every known document type and every sequence of draws, the anomalies are
  at most as many as (indeed exactly as many as) the failing checks whose check type
  has a branch in the anomaly loop, one message for each; there is exactly one
  recommendation when the result is valid and at least one when it is not.
\<close>

theorem anomalies_and_recommendations:
  assumes "document_type d \<in> set DocumentType_members"
  shows "\<exists>r g'. validate_document cd d g = Inr (r, g') \<and>
     length (anomalies r) \<le> length (mapped_failures (document_type d) (checks r)) \<and>
     length (anomalies r) = length (mapped_failures (document_type d) (checks r)) \<and>
     (is_valid r \<longrightarrow> length (recommendations r) = 1) \<and>
     (\<not> is_valid r \<longrightarrow> 1 \<le> length (recommendations r))"
  using assms
proof (cases rule: known_type_cases)
  case bank
  then show ?thesis using texts_bank [of cd d g]
    by (auto simp: validate_document_simps)
next
  case payslip
  then show ?thesis using texts_payslip [of cd d g]
    by (auto simp: validate_document_simps)
next
  case irp
  then show ?thesis using texts_irp [of cd d g]
    by (auto simp: validate_document_simps)
next
  case ppsn
  then show ?thesis using texts_ppsn [of cd d g]
    by (auto simp: validate_document_simps)
next
  case tax
  then show ?thesis using texts_tax [of cd d g]
    by (auto simp: validate_document_simps)
qed

theorem anomalies_and_recommendations_witness:
  "document_type (example_document BANK_STATEMENT) \<in> set DocumentType_members \<and>
   (\<exists>r g'. validate_document 0 (example_document BANK_STATEMENT) (sconst 0) = Inr (r, g') \<and>
      is_valid r \<and> length (anomalies r) = 0 \<and>
      length (mapped_failures BANK_STATEMENT (checks r)) = 0 \<and>
      length (recommendations r) = 1) \<and>
   (\<exists>r g'. validate_document 0 (example_document BANK_STATEMENT) (sconst 1) = Inr (r, g') \<and>
      \<not> is_valid r \<and> length (anomalies r) = 2 \<and>
      length (mapped_failures BANK_STATEMENT (checks r)) = 2 \<and>
      1 \<le> length (recommendations r))"
proof -
  note h = example_bank_known
  from anomalies_and_recommendations [OF h, of 0 "sconst 0"]
  obtain r g' where
    run: "validate_document 0 (example_document BANK_STATEMENT) (sconst 0) = Inr (r, g')" and
    an: "length (anomalies r) = length (mapped_failures BANK_STATEMENT (checks r))" and
    re: "is_valid r \<longrightarrow> length (recommendations r) = 1"
    unfolding example_document_type by blast
  from run have v: "is_valid r" and a0: "length (anomalies r) = 0"
    unfolding bank_run_all_pass by auto
  from run an re v a0 have valid_run:
    "\<exists>r g'. validate_document 0 (example_document BANK_STATEMENT) (sconst 0) = Inr (r, g') \<and>
      is_valid r \<and> length (anomalies r) = 0 \<and>
      length (mapped_failures BANK_STATEMENT (checks r)) = 0 \<and>
      length (recommendations r) = 1"
    by auto
  from anomalies_and_recommendations [OF h, of 0 "sconst 1"]
  obtain r g' where
    run: "validate_document 0 (example_document BANK_STATEMENT) (sconst 1) = Inr (r, g')" and
    an: "length (anomalies r) = length (mapped_failures BANK_STATEMENT (checks r))" and
    re: "\<not> is_valid r \<longrightarrow> 1 \<le> length (recommendations r)"
    unfolding example_document_type by blast
  from run have v: "\<not> is_valid r" and a2: "length (anomalies r) = 2"
    unfolding bank_run_all_fail by auto
  from run an re v a2 have invalid_run:
    "\<exists>r g'. validate_document 0 (example_document BANK_STATEMENT) (sconst 1) = Inr (r, g') \<and>
      \<not> is_valid r \<and> length (anomalies r) = 2 \<and>
      length (mapped_failures BANK_STATEMENT (checks r)) = 2 \<and>
      1 \<le> length (recommendations r)"
    by auto
  show ?thesis by (rule conjI [OF h conjI [OF valid_run invalid_run]])
qed

section \<open>How often the checks pass\<close>

text \<open>
  C5, as the code has it. For every known document type, the checks whose \<open>passed\<close> is the
  literal \<^verbatim>\<open>True\<close> pass for every sequence of draws, and every other check passes
  for three of the six raw values of its \<^verbatim>\<open>random.choice\<close> in a bank statement
  (the choice is among \<^verbatim>\<open>[True, False]\<close>: probability 1/2) and for four of six in
  the other four types (the choice is among \<^verbatim>\<open>[True, True, False]\<close>: probability
  2/3), whatever the other draws; the two tables list all check types of the result.
  The thresholds 0.3 and 0.2 decide the details text only.
\<close>

theorem check_pass_frequencies:
  assumes "document_type d \<in> set DocumentType_members"
  shows "list_all (\<lambda>name. check_passes cd d name g) (fixed_checks (document_type d)) \<and>
    list_all (\<lambda>(name, k). pass_frequency cd d name k g =
                (if document_type d = BANK_STATEMENT then 1 / 2 else 2 / 3))
      (drawn_checks (document_type d)) \<and>
    (\<exists>r g'. validate_document cd d g = Inr (r, g') \<and>
       set (map check_type (checks r)) =
         set (fixed_checks (document_type d)) \<union> set (map fst (drawn_checks (document_type d))))"
  using assms
proof (cases rule: known_type_cases)
  case bank
  then show ?thesis
    using frequencies_bank [of d cd g] check_types_bank [of cd d g]
    by (simp add: validate_document_simps member_strings)
next
  case payslip
  then show ?thesis
    using frequencies_payslip [of d cd g] check_types_payslip [of cd d g]
    by (simp add: validate_document_simps member_strings)
next
  case irp
  then show ?thesis
    using frequencies_irp [of d cd g] check_types_irp [of cd d g]
    by (simp add: validate_document_simps member_strings)
next
  case ppsn
  then show ?thesis
    using frequencies_ppsn [of d cd g] check_types_ppsn [of cd d g]
    by (simp add: validate_document_simps member_strings)
next
  case tax
  then show ?thesis
    using frequencies_tax [of d cd g] check_types_tax [of cd d g]
    by (simp add: validate_document_simps member_strings)
qed

theorem check_pass_frequencies_witness:
  "document_type (example_document BANK_STATEMENT) \<in> set DocumentType_members \<and>
   document_type (example_document PAYSLIP) \<in> set DocumentType_members \<and>
   check_passes 0 (example_document BANK_STATEMENT) ''Logo Verification'' (sconst 1) \<and>
   pass_frequency 0 (example_document BANK_STATEMENT) ''Balance Calculation'' 0 (sconst 1)
     = 1 / 2 \<and>
   pass_frequency 0 (example_document BANK_STATEMENT) ''Transaction Pattern Analysis'' 2
     (sconst 1) = 1 / 2 \<and>
   check_passes 0 (example_document PAYSLIP) ''Document Format'' (sconst 2) \<and>
   pass_frequency 0 (example_document PAYSLIP) ''Employer Verification'' 0 (sconst 2)
     = 2 / 3 \<and>
   pass_frequency 0 (example_document PAYSLIP) ''Salary Consistency'' 4 (sconst 2) = 2 / 3"
proof -
  have hb: "document_type (example_document BANK_STATEMENT) \<in> set DocumentType_members"
    by (rule example_bank_known)
  have hp: "document_type (example_document PAYSLIP) \<in> set DocumentType_members"
    by (simp add: example_document_type DocumentType_members_def)
  show ?thesis
    using hb hp check_pass_frequencies [OF hb, of 0 "sconst 1"]
      check_pass_frequencies [OF hp, of 0 "sconst 2"]
    by (simp add: example_document_type fixed_checks_simps drawn_checks_simps member_strings)
qed

text \<open>
  The probability of passing is not between 70% and 90%: the check
  ``Balance Calculation'' of a bank statement can fail (it does when the first raw
  value is 1) and passes for three of the six raw values, with frequency 1/2.
\<close>

theorem check_pass_frequencies_counterexample:
  "\<not> check_passes 0 (example_document BANK_STATEMENT) ''Balance Calculation'' (sconst 1) \<and>
   pass_count 0 (example_document BANK_STATEMENT) ''Balance Calculation'' 0 (sconst 0) = 3 \<and>
   pass_frequency 0 (example_document BANK_STATEMENT) ''Balance Calculation'' 0 (sconst 0)
     = 1 / 2 \<and>
   pass_frequency 0 (example_document BANK_STATEMENT) ''Balance Calculation'' 0 (sconst 0)
     < 7 / 10"
  by (simp add: pass_frequency_def pass_count_def upt_6 set_draw_simps
      check_passes_bank [OF example_document_type])

section \<open>Reproducibility\<close>

text \<open>
  C6. Two runs of \<open>validate_document\<close> on the same document, from generator states
  that yield the same first seven raw values (no validator draws more), return results
  with the same document, \<open>is_valid\<close>, \<open>risk_score\<close>, checks, anomalies and
  recommendations; in particular two runs from the same seed do. The class date of the
  two runs may differ, it only fills \<open>validation_date\<close>.
\<close>

theorem same_draws_same_result:
  assumes "stake 7 g = stake 7 g'"
  shows "\<exists>r r' h h'. validate_document cd d g = Inr (r, h) \<and>
     validate_document cd' d g' = Inr (r', h') \<and>
     document r = document r' \<and> is_valid r = is_valid r' \<and> risk_score r = risk_score r' \<and>
     checks r = checks r' \<and> anomalies r = anomalies r' \<and>
     recommendations r = recommendations r'"
proof (cases "document_type d \<in> set DocumentType_members")
  case True
  then show ?thesis
  proof (cases rule: known_type_cases)
    case bank
    then show ?thesis using same_draws_bank [OF assms, of cd d cd']
      by (simp add: validate_document_simps)
  next
    case payslip
    then show ?thesis using same_draws_payslip [OF assms, of cd d cd']
      by (simp add: validate_document_simps)
  next
    case irp
    then show ?thesis using same_draws_irp [OF assms, of cd d cd']
      by (simp add: validate_document_simps)
  next
    case ppsn
    then show ?thesis using same_draws_ppsn [OF assms, of cd d cd']
      by (simp add: validate_document_simps)
  next
    case tax
    then show ?thesis using same_draws_tax [OF assms, of cd d cd']
      by (simp add: validate_document_simps)
  qed
next
  case False
  then show ?thesis
    by (simp add: validate_document_unknown rreturn_def ValidationResult_init_def)
qed

theorem same_draws_same_result_witness:
  "stake 7 (sconst (1::nat)) = stake 7 ([1, 1, 1, 1, 1, 1, 1] @- sconst 0) \<and>
   sconst (1::nat) !! 7 \<noteq> ([1, 1, 1, 1, 1, 1, 1] @- sconst (0::nat)) !! 7 \<and>
   (\<exists>r r' h h'. validate_document 0 (example_document PAYSLIP) (sconst 1) = Inr (r, h) \<and>
     validate_document 5 (example_document PAYSLIP) ([1, 1, 1, 1, 1, 1, 1] @- sconst 0)
       = Inr (r', h') \<and>
     document r = document r' \<and> is_valid r = is_valid r' \<and> risk_score r = risk_score r' \<and>
     checks r = checks r' \<and> anomalies r = anomalies r' \<and>
     recommendations r = recommendations r')"
proof -
  have seven: "(7::nat) = Suc (Suc (Suc (Suc (Suc (Suc (Suc 0))))))" by simp
  have h: "stake 7 (sconst (1::nat)) = stake 7 ([1, 1, 1, 1, 1, 1, 1] @- sconst 0)"
    unfolding seven by simp
  have ne: "sconst (1::nat) !! 7 \<noteq> ([1, 1, 1, 1, 1, 1, 1] @- sconst (0::nat)) !! 7"
    unfolding seven by simp
  note run = same_draws_same_result [OF h, of 0 "example_document PAYSLIP" 5]
  show ?thesis by (rule conjI [OF h conjI [OF ne run]])
qed

section \<open>The passed flag and the details text\<close>

text \<open>
  C10. The \<open>passed\<close> flag of a drawn check and its details text come from two
  different draws. For every known document type and every check whose flag is drawn,
  with \<open>k\<close> the position of its \<^verbatim>\<open>random.choice\<close>: whether the check passes is the
  same in any two runs whose draws agree at position \<open>k\<close>, whatever the other draws
  are, and its details text is the same in any two runs whose draws agree at position
  \<open>k + 1\<close>. For a bank statement the flag of ``Balance Calculation'' is the value
  that \<^verbatim>\<open>random.choice([True, False])\<close> returns on the first draw, and its text is
  the success text exactly when the value that \<^verbatim>\<open>random.random()\<close> returns on the
  second draw exceeds 0.3. So there is a sequence of draws (1, then \<open>2^53 - 1\<close>,
  then zeros) for which that check fails with the success text, and one (all zeros)
  for which it passes with the failure text.
\<close>

theorem passed_and_details_independent:
  assumes "document_type d \<in> set DocumentType_members"
  shows
    "list_all (\<lambda>(name, k).
        (g !! k = h !! k \<longrightarrow> check_passes cd d name g = check_passes cd d name h) \<and>
        (g !! Suc k = h !! Suc k \<longrightarrow>
           check_details cd d name g = check_details cd d name h))
      (drawn_checks (document_type d)) \<and>
     (document_type d = BANK_STATEMENT \<longrightarrow>
        random_choice [True, False] g
          = Inr (check_passes cd d ''Balance Calculation'' g, stl g) \<and>
        (\<exists>x. random_random (stl g) = Inr (x, stl (stl g)) \<and>
             check_details cd d ''Balance Calculation'' g =
               [if x > float_0_3 then ''Opening balance + transactions = closing balance''
                else ''Discrepancy detected in balance calculation'']) \<and>
        (\<exists>g r g'. validate_document cd d g = Inr (r, g') \<and>
            list_ex (\<lambda>c. check_type c = ''Balance Calculation'' \<and> \<not> passed c \<and>
                       details c = ''Opening balance + transactions = closing balance'')
              (checks r)) \<and>
        (\<exists>g r g'. validate_document cd d g = Inr (r, g') \<and>
            list_ex (\<lambda>c. check_type c = ''Balance Calculation'' \<and> passed c \<and>
                       details c = ''Discrepancy detected in balance calculation'')
              (checks r)))"
  using assms
proof (cases rule: known_type_cases)
  case bank
  have "list_all (\<lambda>(name, k).
        (g !! k = h !! k \<longrightarrow> check_passes cd d name g = check_passes cd d name h) \<and>
        (g !! Suc k = h !! Suc k \<longrightarrow>
           check_details cd d name g = check_details cd d name h))
      (drawn_checks (document_type d))"
    using bank
    by (simp add: drawn_checks_simps snth_heads
        check_passes_bank [OF bank] check_details_bank [OF bank])
  with bank_balance_draws [OF bank, of g cd] bank_fail_with_success_text [OF bank, of cd]
    bank_pass_with_failure_text [OF bank, of cd]
  show ?thesis by blast
next
  case payslip
  then show ?thesis
    by (simp add: drawn_checks_simps snth_heads member_strings
        check_passes_payslip [OF payslip] check_details_payslip [OF payslip])
next
  case irp
  then show ?thesis
    by (simp add: drawn_checks_simps snth_heads member_strings
        check_passes_irp [OF irp] check_details_irp [OF irp])
next
  case ppsn
  then show ?thesis
    by (simp add: drawn_checks_simps snth_heads member_strings
        check_passes_ppsn [OF ppsn] check_details_ppsn [OF ppsn])
next
  case tax
  then show ?thesis
    by (simp add: drawn_checks_simps snth_heads member_strings
        check_passes_tax [OF tax] check_details_tax [OF tax])
qed

theorem passed_and_details_independent_witness:
  "document_type (example_document BANK_STATEMENT) \<in> set DocumentType_members \<and>
   document_type (example_document BANK_STATEMENT) = BANK_STATEMENT \<and>
   sconst (0::nat) !! 0 = (0 ## (2 ^ 53 - 1) ## sconst 0) !! 0 \<and>
   check_passes 0 (example_document BANK_STATEMENT) ''Balance Calculation'' (sconst 0) = check_passes 0 (example_document BANK_STATEMENT) ''Balance Calculation'' (0 ## (2 ^ 53 - 1) ## sconst 0) \<and>
   check_details 0 (example_document BANK_STATEMENT) ''Balance Calculation'' (sconst 0) \<noteq> check_details 0 (example_document BANK_STATEMENT) ''Balance Calculation'' (0 ## (2 ^ 53 - 1) ## sconst 0) \<and>
   sconst (0::nat) !! Suc 0 = (1 ## sconst 0) !! Suc 0 \<and>
   check_details 0 (example_document BANK_STATEMENT) ''Balance Calculation'' (sconst 0) = check_details 0 (example_document BANK_STATEMENT) ''Balance Calculation'' (1 ## sconst 0) \<and>
   check_passes 0 (example_document BANK_STATEMENT) ''Balance Calculation'' (sconst 0) \<noteq> check_passes 0 (example_document BANK_STATEMENT) ''Balance Calculation'' (1 ## sconst 0) \<and>
   (\<exists>g r g'. validate_document 0 (example_document BANK_STATEMENT) g = Inr (r, g') \<and>
        list_ex (\<lambda>c. check_type c = ''Balance Calculation'' \<and> \<not> passed c \<and> details c = ''Opening balance + transactions = closing balance'')
          (checks r)) \<and>
   (\<exists>g r g'. validate_document 0 (example_document BANK_STATEMENT) g = Inr (r, g') \<and>
        list_ex (\<lambda>c. check_type c = ''Balance Calculation'' \<and> passed c \<and> details c = ''Discrepancy detected in balance calculation'')
          (checks r))"
proof -
  have hb: "document_type (example_document BANK_STATEMENT) = BANK_STATEMENT"
    by (rule example_document_type)
  note hk = example_bank_known
  have d0: "sconst (0::nat) !! 0 = (0 ## (2 ^ 53 - 1) ## sconst 0) !! 0"
    by simp
  have d1: "sconst (0::nat) !! Suc 0 = (1 ## sconst 0) !! Suc 0"
    by simp
  note first = passed_and_details_independent [OF hk, of "sconst 0" "0 ## (2 ^ 53 - 1) ## sconst 0" 0]
  note second = passed_and_details_independent [OF hk, of "sconst 0" "1 ## sconst 0" 0]
  from first have flags_same: "check_passes 0 (example_document BANK_STATEMENT) ''Balance Calculation'' (sconst 0) = check_passes 0 (example_document BANK_STATEMENT) ''Balance Calculation'' (0 ## (2 ^ 53 - 1) ## sconst 0)"
    by (simp add: example_document_type drawn_checks_simps snth_heads)
  from second have texts_same: "check_details 0 (example_document BANK_STATEMENT) ''Balance Calculation'' (sconst 0) = check_details 0 (example_document BANK_STATEMENT) ''Balance Calculation'' (1 ## sconst 0)"
    by (simp add: example_document_type drawn_checks_simps snth_heads)
  have texts_differ: "check_details 0 (example_document BANK_STATEMENT) ''Balance Calculation'' (sconst 0) \<noteq> check_details 0 (example_document BANK_STATEMENT) ''Balance Calculation'' (0 ## (2 ^ 53 - 1) ## sconst 0)"
    by (simp add: check_details_bank [OF hb] float_0_3_def)
  have flags_differ: "check_passes 0 (example_document BANK_STATEMENT) ''Balance Calculation'' (sconst 0) \<noteq> check_passes 0 (example_document BANK_STATEMENT) ''Balance Calculation'' (1 ## sconst 0)"
    by (simp add: check_passes_bank [OF hb])
  note bank = first [THEN conjunct2, THEN mp, OF hb]
  note e1 = bank [THEN conjunct2, THEN conjunct2, THEN conjunct1]
  note e2 = bank [THEN conjunct2, THEN conjunct2, THEN conjunct2]
  show ?thesis
    by (rule conjI [OF hk conjI [OF hb conjI [OF d0 conjI [OF flags_same conjI [OF texts_differ conjI [OF d1 conjI [OF texts_same conjI [OF flags_differ conjI [OF e1 e2]]]]]]]]])
qed

end
